theory Spec2Isabelle
  imports Complex_Main "HOL-Library.Log_Nat" "HOL-Library.Code_Target_Numeral"
begin

section \<open>The Polymesh TVL adapter (projects/polymesh/index.js)\<close>

text \<open>
  A shallow embedding of the adapter. The program is a chain of asynchronous JavaScript
  functions that call three outside capabilities (the Polymesh SDK, the Polkadot.js query
  interface behind it, and the CoinGecko price service through axios), write to the console
  and compute with two kinds of numbers: BigInt (the on-chain amounts) and Number (IEEE-754
  binary64). The embedding keeps each of these:
  \<^item> BigInt is \<open>int\<close>;
  \<^item> Number is the type \<open>number\<close> below, with the rounding of binary64 written out;
  \<^item> an async function returns a \<open>promise\<close>: its outcome (resolved with a value, rejected
    with a thrown value, or never settled) together with the list of effects it caused;
  \<^item> a thrown value is any JavaScript value, described by what reading and printing its
    \<open>message\<close> does, since that is all the program does with it;
  \<^item> the outside capabilities are fields of a record \<open>world\<close> that fixes, for one run, what
    each call answers, and which of several rejections reaches a \<open>Promise.all\<close> first.
  The console, the module constants and the built-in operations are taken to work as the
  language defines them (\<open>console.log\<close> does not throw, \<open>CONFIG\<close> is not reassigned).
\<close>

subsection \<open>JavaScript numbers\<close>

text \<open>
  A Number is a finite binary64 value, an infinity or NaN. Finite values are carried as the
  rational they denote; the operations round their exact result to the nearest binary64
  value, ties to even, with gradual underflow (smallest quantum \<open>2 powi (- 1074)\<close>) and
  overflow to an infinity once the rounded magnitude reaches \<open>2 ^ 1024\<close>. The two zeros
  of binary64 are one value here (\<open>Num 0\<close>): they differ only under division by zero and
  in printing, neither of which decides a result of this program. Every result of an
  operation is a binary64 value; the type also holds rationals that are not, and nothing
  below needs an argument to be one.
\<close>

datatype number = Num rat | PosInfinity | NegInfinity | NaN

definition round_ties_even :: "rat \<Rightarrow> int" where
  "round_ties_even x =
     (let f = \<lfloor>x\<rfloor>; d = x - of_int f
      in if d < 1 / 2 then f
         else if 1 / 2 < d then f + 1
         else if even f then f else f + 1)"

text \<open>\<open>ilog2 x\<close> is the binary exponent of a positive rational: \<open>2 powi ilog2 x \<le> x < 2 powi (ilog2 x + 1)\<close>.\<close>

definition ilog2 :: "rat \<Rightarrow> int" where
  "ilog2 x =
     (let (p, q) = quotient_of x; d = bitlen p - bitlen q
      in if 2 powi d \<le> x then d else d - 1)"

definition overflow_threshold :: rat where
  "overflow_threshold = 2 ^ 1024"

definition round_double :: "rat \<Rightarrow> number" where
  "round_double x =
     (if x = 0 then Num 0
      else
        let e = max (ilog2 \<bar>x\<bar> - 52) (- 1074);
            r = of_int (round_ties_even (x / 2 powi e)) * 2 powi e
        in if overflow_threshold \<le> \<bar>r\<bar> then (if 0 < x then PosInfinity else NegInfinity)
           else Num r)"

text \<open>The operators \<open>*\<close>, \<open>/\<close>, \<open>+\<close> and \<open>>\<close> on Numbers, and ToBoolean.\<close>

fun js_mul :: "number \<Rightarrow> number \<Rightarrow> number" where
  "js_mul NaN _ = NaN"
| "js_mul _ NaN = NaN"
| "js_mul (Num a) (Num b) = round_double (a * b)"
| "js_mul (Num a) PosInfinity = (if a = 0 then NaN else if 0 < a then PosInfinity else NegInfinity)"
| "js_mul (Num a) NegInfinity = (if a = 0 then NaN else if 0 < a then NegInfinity else PosInfinity)"
| "js_mul PosInfinity (Num b) = (if b = 0 then NaN else if 0 < b then PosInfinity else NegInfinity)"
| "js_mul NegInfinity (Num b) = (if b = 0 then NaN else if 0 < b then NegInfinity else PosInfinity)"
| "js_mul PosInfinity PosInfinity = PosInfinity"
| "js_mul PosInfinity NegInfinity = NegInfinity"
| "js_mul NegInfinity PosInfinity = NegInfinity"
| "js_mul NegInfinity NegInfinity = PosInfinity"

fun js_div :: "number \<Rightarrow> number \<Rightarrow> number" where
  "js_div NaN _ = NaN"
| "js_div _ NaN = NaN"
| "js_div (Num a) (Num b) =
     (if b = 0 then (if a = 0 then NaN else if 0 < a then PosInfinity else NegInfinity)
      else round_double (a / b))"
| "js_div (Num a) PosInfinity = Num 0"
| "js_div (Num a) NegInfinity = Num 0"
| "js_div PosInfinity (Num b) = (if 0 \<le> b then PosInfinity else NegInfinity)"
| "js_div NegInfinity (Num b) = (if 0 \<le> b then NegInfinity else PosInfinity)"
| "js_div PosInfinity PosInfinity = NaN"
| "js_div PosInfinity NegInfinity = NaN"
| "js_div NegInfinity PosInfinity = NaN"
| "js_div NegInfinity NegInfinity = NaN"

fun js_add :: "number \<Rightarrow> number \<Rightarrow> number" where
  "js_add NaN _ = NaN"
| "js_add _ NaN = NaN"
| "js_add (Num a) (Num b) = round_double (a + b)"
| "js_add (Num a) PosInfinity = PosInfinity"
| "js_add (Num a) NegInfinity = NegInfinity"
| "js_add PosInfinity (Num b) = PosInfinity"
| "js_add NegInfinity (Num b) = NegInfinity"
| "js_add PosInfinity PosInfinity = PosInfinity"
| "js_add PosInfinity NegInfinity = NaN"
| "js_add NegInfinity PosInfinity = NaN"
| "js_add NegInfinity NegInfinity = NegInfinity"

fun js_gt :: "number \<Rightarrow> number \<Rightarrow> bool" where
  "js_gt NaN _ = False"
| "js_gt _ NaN = False"
| "js_gt (Num a) (Num b) = (b < a)"
| "js_gt (Num a) PosInfinity = False"
| "js_gt (Num a) NegInfinity = True"
| "js_gt PosInfinity (Num b) = True"
| "js_gt NegInfinity (Num b) = False"
| "js_gt PosInfinity PosInfinity = False"
| "js_gt PosInfinity NegInfinity = True"
| "js_gt NegInfinity PosInfinity = False"
| "js_gt NegInfinity NegInfinity = False"

fun truthy :: "number \<Rightarrow> bool" where
  "truthy (Num a) = (a \<noteq> 0)"
| "truthy PosInfinity = True"
| "truthy NegInfinity = True"
| "truthy NaN = False"

text \<open>
  \<open>Number(amount)\<close> for a BigInt rounds the integer to binary64. \<open>Math.pow(10, n)\<close> for a
  small natural exponent is the binary64 value nearest to the power (exact up to \<open>10 ^ 22\<close>).
\<close>

definition Number :: "int \<Rightarrow> number" where
  "Number amount = round_double (of_int amount)"

definition Math_pow :: "nat \<Rightarrow> nat \<Rightarrow> number" where
  "Math_pow base n = round_double (of_nat (base ^ n))"

subsection \<open>Configuration\<close>

text \<open>
  \<open>CONFIG\<close> is a module constant, three of whose fields read the process environment. The
  functions below take the configuration as an argument, so that a property can speak of a
  configured treasury account as well as of the \<open>null\<close> the source ships.
\<close>

record env =
  env_POLYMESH_RPC :: "string option"
  env_DEMO_MODE :: "string option"
  env_SILENT_MODE :: "string option"

record config =
  RPC_ENDPOINT :: string
  CHAIN_NAME :: string
  POLYX_DECIMALS :: nat
  POLYX_FALLBACK_PRICE :: number
  TREASURY_ACCOUNT :: "string option"
  DEMO_MODE :: bool
  SILENT_MODE :: bool
  MAINNET_LAUNCH_TIMESTAMP :: nat

definition CONFIG :: "env \<Rightarrow> config" where
  "CONFIG e =
     \<lparr> RPC_ENDPOINT =
         (case env_POLYMESH_RPC e of
            None \<Rightarrow> ''wss://mainnet-rpc.polymesh.network/''
          | Some url \<Rightarrow> if url = [] then ''wss://mainnet-rpc.polymesh.network/'' else url),
       CHAIN_NAME = ''polymesh'',
       POLYX_DECIMALS = 6,
       POLYX_FALLBACK_PRICE = round_double (3 / 10),
       TREASURY_ACCOUNT = None,
       DEMO_MODE = (env_DEMO_MODE e = Some ''true''),
       SILENT_MODE = (env_SILENT_MODE e = Some ''true''),
       MAINNET_LAUNCH_TIMESTAMP = 1639612800 \<rparr>"

subsection \<open>Thrown values, effects and promises\<close>

text \<open>
  JavaScript can throw, and a promise can reject with, any value. The program does two things
  with a caught value besides rethrowing it: it reads \<open>error.message\<close> as an argument of
  \<open>console.error\<close>, and it prints \<open>error.message\<close> inside a template string. A thrown value is
  modelled by what these two do:
  \<^item> \<open>Error m\<close>: a value whose message reads and prints (an Error object as the language
    and the libraries create them; also a value without a message, which prints as
    undefined);
  \<^item> \<open>Nullish\<close>: \<open>null\<close> or \<open>undefined\<close>, on which reading \<open>.message\<close> throws a TypeError;
  \<^item> \<open>Unreadable t\<close>: a value on which reading \<open>.message\<close> throws \<open>t\<close>;
  \<^item> \<open>Unprintable t\<close>: a value whose message reads, but throws \<open>t\<close> when converted to
    text (a Symbol, an object whose \<open>toString\<close> throws).
  \<open>read_message\<close> and \<open>print_message\<close> give what the evaluation throws, if anything.
\<close>

datatype thrown = Error string | Nullish | Unreadable thrown | Unprintable thrown

definition type_error :: thrown where
  "type_error = Error ''TypeError: Cannot read properties of null or undefined''"

fun read_message :: "thrown \<Rightarrow> thrown option" where
  "read_message (Error m) = None"
| "read_message Nullish = Some type_error"
| "read_message (Unreadable t) = Some t"
| "read_message (Unprintable t) = None"

fun print_message :: "thrown \<Rightarrow> thrown option" where
  "print_message (Error m) = None"
| "print_message Nullish = Some type_error"
| "print_message (Unreadable t) = Some t"
| "print_message (Unprintable t) = Some t"

text \<open>
  A promise resolves with a value, rejects with a thrown value, or never settles. An async
  function returns its outcome together with the list of effects it caused; a function that
  awaits a promise that never settles never settles itself.

  An event is one observable effect: a console line (its level and the fixed ASCII part of
  its text; pictographs and interpolated values are left out) or a call of an outside
  capability. Events of branches that \<open>Promise.all\<close> runs concurrently are listed branch after
  branch, in the order the branches are started; their interleaving in time is not modelled,
  and no property below depends on it.
\<close>

datatype 'a outcome = Resolved 'a | Rejected thrown | Pending

fun settled :: "'a outcome \<Rightarrow> bool" where
  "settled Pending = False"
| "settled (Resolved v) = True"
| "settled (Rejected t) = True"

fun rejection :: "'a outcome \<Rightarrow> thrown list" where
  "rejection (Rejected t) = [t]"
| "rejection (Resolved v) = []"
| "rejection Pending = []"

datatype level = Info | Warn | Err

datatype event =
    Console level string
  | Connect_called string
  | Disconnect_called
  | TotalIssuance_called
  | ActiveEra_called
  | ErasTotalStake_called nat
  | Account_called string
  | Axios_get_called

type_synonym 'a promise = "'a outcome \<times> event list"

fun is_console :: "event \<Rightarrow> bool" where
  "is_console (Console l s) = True"
| "is_console _ = False"

fun is_error_line :: "event \<Rightarrow> bool" where
  "is_error_line (Console Err s) = True"
| "is_error_line _ = False"

definition log_info :: "config \<Rightarrow> string \<Rightarrow> event list" where
  "log_info cfg msg = (if SILENT_MODE cfg then [] else [Console Info msg])"

definition log_warn :: "config \<Rightarrow> string \<Rightarrow> event list" where
  "log_warn cfg msg = (if SILENT_MODE cfg then [] else [Console Warn msg])"

definition log_error :: "config \<Rightarrow> string \<Rightarrow> event list" where
  "log_error cfg msg = [Console Err msg]"

text \<open>
  The \<open>catch\<close> block that three functions share: it prints the message into a warning and
  returns a default. The template string is evaluated before \<open>log.warn\<close> is called (also in
  silent mode), so a message that cannot be printed makes the block throw, and the function
  reject, instead. \<open>effects\<close> are those of the \<open>try\<close> block so far.
\<close>

definition catch_warn :: "config \<Rightarrow> string \<Rightarrow> event list \<Rightarrow> thrown \<Rightarrow> 'a \<Rightarrow> 'a promise" where
  "catch_warn cfg warning effects error fallback =
     (case print_message error of
        Some t \<Rightarrow> (Rejected t, effects)
      | None \<Rightarrow> (Resolved fallback, effects @ log_warn cfg warning))"

text \<open>
  \<open>Promise.all\<close> on two and on three promises: all branches run (their effects are kept). It
  rejects as soon as one branch rejects, with that branch's value; when several branches
  reject, which of them is first is a matter of timing, given here by a number of the run
  (an index into the rejected branches, taken modulo their number). With no rejection it
  resolves with the tuple of values once every branch has resolved, and never settles if one
  of them never does.
\<close>

definition first_rejected :: "nat \<Rightarrow> thrown list \<Rightarrow> thrown" where
  "first_rejected race ts = ts ! (race mod length ts)"

definition Promise_all2 :: "nat \<Rightarrow> 'a promise \<Rightarrow> 'b promise \<Rightarrow> ('a \<times> 'b) promise" where
  "Promise_all2 race p1 p2 =
     (let ts = rejection (fst p1) @ rejection (fst p2)
      in if ts \<noteq> [] then Rejected (first_rejected race ts)
         else (case (fst p1, fst p2) of
                 (Resolved v1, Resolved v2) \<Rightarrow> Resolved (v1, v2)
               | _ \<Rightarrow> Pending),
      snd p1 @ snd p2)"

definition Promise_all3 ::
  "nat \<Rightarrow> 'a promise \<Rightarrow> 'b promise \<Rightarrow> 'c promise \<Rightarrow> ('a \<times> 'b \<times> 'c) promise" where
  "Promise_all3 race p1 p2 p3 =
     (let ts = rejection (fst p1) @ rejection (fst p2) @ rejection (fst p3)
      in if ts \<noteq> [] then Rejected (first_rejected race ts)
         else (case (fst p1, fst p2, fst p3) of
                 (Resolved v1, Resolved v2, Resolved v3) \<Rightarrow> Resolved (v1, v2, v3)
               | _ \<Rightarrow> Pending),
      snd p1 @ snd p2 @ snd p3)"

subsection \<open>The outside capabilities\<close>

text \<open>
  The value the price service reports is used in four ways: it is tested for truth, compared
  with 0, printed in a template string and used as a factor of a product. A Number does all four
  as Numbers do. Any other value (\<open>true\<close>, a string, an array, a BigInt, ...) is described by
  what the four give: its truth value; the result of \<open>value > 0\<close>, or what the comparison
  throws; what printing it throws, if anything; and the Number that \<open>x * value\<close> multiplies
  \<open>x\<close> by (its \<open>factor\<close>), or what the multiplication throws.
\<close>

datatype js_value =
    Number_value number
  | Other_value bool "thrown + bool" "thrown option" "thrown + number"

fun ToBoolean :: "js_value \<Rightarrow> bool" where
  "ToBoolean (Number_value n) = truthy n"
| "ToBoolean (Other_value b gt pr fac) = b"

fun greater_than_zero :: "js_value \<Rightarrow> thrown + bool" where
  "greater_than_zero (Number_value n) = Inr (js_gt n (Num 0))"
| "greater_than_zero (Other_value b gt pr fac) = gt"

fun print_value :: "js_value \<Rightarrow> thrown option" where
  "print_value (Number_value n) = None"
| "print_value (Other_value b gt pr fac) = pr"

fun factor :: "js_value \<Rightarrow> thrown + number" where
  "factor (Number_value n) = Inr n"
| "factor (Other_value b gt pr fac) = fac"

text \<open>
  What one run sees of the outside. Each capability is called as the source calls it; the
  promise it returns resolves, rejects or never settles. A rejection also stands for a throw
  while the call is reached or while its answer is handled inside the same \<open>try\<close> block or
  \<open>then\<close> callback (a missing module, an answer whose conversion to BigInt throws). The one
  call outside any \<open>try\<close>, \<open>api.query.balances.totalIssuance()\<close>, is taken to return a promise:
  were the call itself to throw, \<open>queryChainData\<close> would reject with what it throws, as it
  does here when the promise rejects alone, without starting the other two queries. A chain
  value is the integer its codec prints (\<open>BigInt(val.toString())\<close> is the identity on it);
  \<open>None\<close> stands for a missing answer (\<open>null\<close>, \<open>undefined\<close>, an \<open>Option\<close> that is not
  \<open>isSome\<close>, a missing field of an optional chain). In \<open>axios_get\<close>, \<open>Some v\<close> is the field
  \<open>data.polymesh.usd\<close> of the response. \<open>query_staking\<close> is \<open>None\<close> when the chain has no staking
  module. \<open>queries_race\<close> and \<open>fetch_race\<close> say which rejection is first in the \<open>Promise.all\<close> of
  \<open>queryChainData\<close> and of \<open>fetch\<close>.
\<close>

record staking_module =
  activeEra :: "nat option outcome"
  erasTotalStake :: "nat \<Rightarrow> int option outcome"

record polkadot_api =
  balances_totalIssuance :: "int outcome"
  query_staking :: "staking_module option"
  system_account :: "string \<Rightarrow> int option outcome"
  queries_race :: nat

record polymesh =
  polkadotApi :: polkadot_api
  disconnect :: "unit outcome"

record world =
  Polymesh_connect :: "string \<Rightarrow> polymesh outcome"
  axios_get :: "js_value option outcome"
  fetch_race :: nat

subsection \<open>Utility functions\<close>

definition toPolyx :: "config \<Rightarrow> int \<Rightarrow> number" where
  "toPolyx cfg amount =
     (let divisor = Math_pow 10 (POLYX_DECIMALS cfg)
      in js_div (Number amount) divisor)"

subsection \<open>Price feed\<close>

definition fetchPolyxPriceFromCoinGecko :: "config \<Rightarrow> world \<Rightarrow> js_value option promise" where
  "fetchPolyxPriceFromCoinGecko cfg w =
     (case axios_get w of
        Pending \<Rightarrow> (Pending, [Axios_get_called])
      | Rejected error \<Rightarrow>
          catch_warn cfg ''CoinGecko price fetch failed'' [Axios_get_called] error None
      | Resolved response \<Rightarrow>
          (case response of
             Some usd \<Rightarrow>
               if ToBoolean usd then (Resolved (Some usd), [Axios_get_called])
               else catch_warn cfg ''CoinGecko price fetch failed'' [Axios_get_called]
                      (Error ''Invalid response format from CoinGecko'') None
           | None \<Rightarrow>
               catch_warn cfg ''CoinGecko price fetch failed'' [Axios_get_called]
                 (Error ''Invalid response format from CoinGecko'') None))"

text \<open>
  \<open>price && price > 0\<close>, then the template string of the info line, which prints the price,
  then \<open>return price\<close>: the comparison and the printing happen outside any \<open>try\<close>.
\<close>

definition getPolyxPrice :: "config \<Rightarrow> world \<Rightarrow> js_value promise" where
  "getPolyxPrice cfg w =
     (case fetchPolyxPriceFromCoinGecko cfg w of
        (Pending, t) \<Rightarrow> (Pending, t)
      | (Rejected error, t) \<Rightarrow> (Rejected error, t)
      | (Resolved price, t) \<Rightarrow>
          (case price of
             None \<Rightarrow>
               (Resolved (Number_value (POLYX_FALLBACK_PRICE cfg)),
                t @ log_warn cfg ''Using fallback POLYX price'')
           | Some p \<Rightarrow>
               if \<not> ToBoolean p
               then (Resolved (Number_value (POLYX_FALLBACK_PRICE cfg)),
                     t @ log_warn cfg ''Using fallback POLYX price'')
               else
                 (case greater_than_zero p of
                    Inl thrown \<Rightarrow> (Rejected thrown, t)
                  | Inr False \<Rightarrow>
                      (Resolved (Number_value (POLYX_FALLBACK_PRICE cfg)),
                       t @ log_warn cfg ''Using fallback POLYX price'')
                  | Inr True \<Rightarrow>
                      (case print_value p of
                         Some thrown \<Rightarrow> (Rejected thrown, t)
                       | None \<Rightarrow> (Resolved p, t @ log_info cfg ''Using live POLYX price'')))))"

subsection \<open>Blockchain queries\<close>

text \<open>
  The \<open>catch\<close> block of \<open>initializePolymesh\<close> reads the message for \<open>console.error\<close> and rethrows
  the error.
\<close>

definition initializePolymesh :: "config \<Rightarrow> world \<Rightarrow> polymesh promise" where
  "initializePolymesh cfg w =
     (case Polymesh_connect w (RPC_ENDPOINT cfg) of
        Pending \<Rightarrow> (Pending, [Connect_called (RPC_ENDPOINT cfg)])
      | Resolved polymesh \<Rightarrow> (Resolved polymesh, [Connect_called (RPC_ENDPOINT cfg)])
      | Rejected error \<Rightarrow>
          (case read_message error of
             Some thrown \<Rightarrow> (Rejected thrown, [Connect_called (RPC_ENDPOINT cfg)])
           | None \<Rightarrow>
               (Rejected error,
                [Connect_called (RPC_ENDPOINT cfg)] @
                log_error cfg ''Failed to connect to Polymesh:'')))"

definition queryTotalStaked :: "config \<Rightarrow> polkadot_api \<Rightarrow> int promise" where
  "queryTotalStaked cfg api =
     (case query_staking api of
        None \<Rightarrow> (Resolved 0, log_warn cfg ''Staking module not available'')
      | Some staking \<Rightarrow>
          (case activeEra staking of
             Pending \<Rightarrow> (Pending, [ActiveEra_called])
           | Rejected error \<Rightarrow>
               catch_warn cfg ''Unable to query staking data'' [ActiveEra_called] error 0
           | Resolved None \<Rightarrow>
               (Resolved 0, [ActiveEra_called] @ log_warn cfg ''No active era found'')
           | Resolved (Some currentEra) \<Rightarrow>
               (case erasTotalStake staking currentEra of
                  Pending \<Rightarrow> (Pending, [ActiveEra_called, ErasTotalStake_called currentEra])
                | Rejected error \<Rightarrow>
                    catch_warn cfg ''Unable to query staking data''
                      [ActiveEra_called, ErasTotalStake_called currentEra] error 0
                | Resolved None \<Rightarrow>
                    (Resolved 0, [ActiveEra_called, ErasTotalStake_called currentEra])
                | Resolved (Some totalStake) \<Rightarrow>
                    (Resolved totalStake,
                     [ActiveEra_called, ErasTotalStake_called currentEra]))))"

text \<open>\<open>!CONFIG.TREASURY_ACCOUNT\<close> holds of \<open>null\<close> and of the empty string.\<close>

definition queryTreasuryBalance :: "config \<Rightarrow> polkadot_api \<Rightarrow> int promise" where
  "queryTreasuryBalance cfg api =
     (case TREASURY_ACCOUNT cfg of
        None \<Rightarrow> (Resolved 0, log_info cfg ''Treasury account not configured, skipping'')
      | Some treasury \<Rightarrow>
          if treasury = []
          then (Resolved 0, log_info cfg ''Treasury account not configured, skipping'')
          else
            (case system_account api treasury of
               Pending \<Rightarrow> (Pending, [Account_called treasury])
             | Rejected error \<Rightarrow>
                 catch_warn cfg ''Unable to query treasury balance''
                   [Account_called treasury] error 0
             | Resolved None \<Rightarrow> (Resolved 0, [Account_called treasury])
             | Resolved (Some free) \<Rightarrow> (Resolved free, [Account_called treasury])))"

text \<open>
  The three amounts, as the object \<open>queryChainData\<close> returns them (BigInt) and as the first
  three fields of the breakdown \<open>calculateTVL\<close> returns (Number).
\<close>

record 'a amounts =
  totalIssuance :: 'a
  totalStaked :: 'a
  treasuryBalance :: 'a

type_synonym chain_data = "int amounts"

definition queryChainData :: "config \<Rightarrow> polymesh \<Rightarrow> chain_data promise" where
  "queryChainData cfg polymesh =
     (let api = polkadotApi polymesh
      in case Promise_all3 (queries_race api)
                (balances_totalIssuance api, [TotalIssuance_called])
                (queryTotalStaked cfg api)
                (queryTreasuryBalance cfg api) of
           (Pending, t) \<Rightarrow> (Pending, t)
         | (Rejected error, t) \<Rightarrow> (Rejected error, t)
         | (Resolved (issuance, staked, treasury), t) \<Rightarrow>
             (Resolved
                \<lparr> totalIssuance = issuance, totalStaked = staked, treasuryBalance = treasury \<rparr>,
              t))"

subsection \<open>TVL calculation\<close>

record tvl_breakdown = "number amounts" +
  tvlPolyx :: number
  tvlUsd :: number
  polyxPrice :: number

definition calculateTVL :: "config \<Rightarrow> chain_data \<Rightarrow> number \<Rightarrow> tvl_breakdown" where
  "calculateTVL cfg chainData price =
     (let tvlInSmallestUnit = totalStaked chainData + treasuryBalance chainData;
          tvl_polyx = toPolyx cfg tvlInSmallestUnit;
          tvl_usd = js_mul tvl_polyx price
      in \<lparr> totalIssuance = toPolyx cfg (totalIssuance chainData),
           totalStaked = toPolyx cfg (totalStaked chainData),
           treasuryBalance = toPolyx cfg (treasuryBalance chainData),
           tvlPolyx = tvl_polyx,
           tvlUsd = tvl_usd,
           polyxPrice = price \<rparr>)"

text \<open>
  The summary: the lines about the amounts, then the line that prints the USD value and the
  price.
\<close>

definition displayTVLBreakdown_amounts :: "config \<Rightarrow> tvl_breakdown \<Rightarrow> event list" where
  "displayTVLBreakdown_amounts cfg b =
     log_info cfg ''Chain Data:'' @
     log_info cfg ''- Total Issuance'' @
     log_info cfg ''- Total Staked'' @
     (if js_gt (treasuryBalance b) (Num 0) then log_info cfg ''- Treasury'' else []) @
     log_info cfg ''Total TVL''"

definition displayTVLBreakdown :: "config \<Rightarrow> tvl_breakdown \<Rightarrow> event list" where
  "displayTVLBreakdown cfg b = displayTVLBreakdown_amounts cfg b @ log_info cfg ''USD Value''"

subsection \<open>Demo mode and the adapter's entry points\<close>

type_synonym adapter_result = "string \<rightharpoonup> number"

definition mockData :: "config \<Rightarrow> tvl_breakdown" where
  "mockData cfg =
     \<lparr> totalIssuance = Num 1000,
       totalStaked = Num 300,
       treasuryBalance = Num 50,
       tvlPolyx = Num 350,
       tvlUsd = js_mul (Num 350) (POLYX_FALLBACK_PRICE cfg),
       polyxPrice = POLYX_FALLBACK_PRICE cfg \<rparr>"

definition fetchDemo :: "config \<Rightarrow> adapter_result promise" where
  "fetchDemo cfg =
     (Resolved [CHAIN_NAME cfg \<mapsto> tvlUsd (mockData cfg)],
      log_info cfg ''Running in DEMO MODE - using mock data'' @
      log_info cfg ''To connect to real network, unset DEMO_MODE environment variable'' @
      displayTVLBreakdown cfg (mockData cfg))"


text \<open>
  \<open>fetch\<close> after the demo shortcut is a \<open>try\<close> / \<open>catch\<close> / \<open>finally\<close>. \<open>fetch_try\<close> is the
  \<open>try\<close> block: its outcome, and the value the variable \<open>polymesh\<close> holds when the block is
  left (\<open>None\<close> while still \<open>undefined\<close>).

  \<open>calculateTVL\<close> is written for a Number price and gets the price as \<open>getPolyxPrice\<close>
  returned it. Its one arithmetic use of the price is the product \<open>tvlPolyx * polyxPrice\<close>,
  which multiplies by the \<open>factor\<close> of the value or throws; so the amounts of the breakdown
  are those \<open>calculateTVL\<close> gives for the factor (its field \<open>polyxPrice\<close>, which holds the
  value itself in the source, is only printed). The summary prints the price in its last
  line.
\<close>

definition fetch_try :: "config \<Rightarrow> world \<Rightarrow> polymesh option \<times> adapter_result promise" where
  "fetch_try cfg w =
     (case initializePolymesh cfg w of
        (Pending, t0) \<Rightarrow> (None, (Pending, t0))
      | (Rejected error, t0) \<Rightarrow> (None, (Rejected error, t0))
      | (Resolved polymesh, t0) \<Rightarrow>
          (case Promise_all2 (fetch_race w) (getPolyxPrice cfg w) (queryChainData cfg polymesh) of
             (Pending, t1) \<Rightarrow>
               (Some polymesh, (Pending, t0 @ log_info cfg ''Connected to Polymesh mainnet'' @ t1))
           | (Rejected error, t1) \<Rightarrow>
               (Some polymesh,
                (Rejected error, t0 @ log_info cfg ''Connected to Polymesh mainnet'' @ t1))
           | (Resolved (price, chainData), t1) \<Rightarrow>
               (case factor price of
                  Inl thrown \<Rightarrow>
                    (Some polymesh,
                     (Rejected thrown, t0 @ log_info cfg ''Connected to Polymesh mainnet'' @ t1))
                | Inr price_factor \<Rightarrow>
                    (let b = calculateTVL cfg chainData price_factor
                     in case print_value price of
                          Some thrown \<Rightarrow>
                            (Some polymesh,
                             (Rejected thrown,
                              t0 @ log_info cfg ''Connected to Polymesh mainnet'' @ t1 @
                              displayTVLBreakdown_amounts cfg b))
                        | None \<Rightarrow>
                            (Some polymesh,
                             (Resolved [CHAIN_NAME cfg \<mapsto> tvlUsd b],
                              t0 @ log_info cfg ''Connected to Polymesh mainnet'' @ t1 @
                              displayTVLBreakdown cfg b))))))"

text \<open>
  \<open>fetch_catch\<close> is the \<open>catch\<close> block applied to the outcome of the \<open>try\<close> block: it reads
  the message of the caught value for \<open>console.error\<close> (and throws what the reading throws),
  then returns the demo run. \<open>fetch_finally\<close> is the \<open>finally\<close> block applied to what is
  then about to be returned or thrown: it awaits \<open>disconnect\<close> when there is a connection,
  and swallows what \<open>disconnect\<close> throws. Neither block is reached while the \<open>try\<close> block has
  not settled.
\<close>

definition fetch_catch :: "config \<Rightarrow> adapter_result promise \<Rightarrow> adapter_result promise" where
  "fetch_catch cfg p =
     (case fst p of
        Rejected error \<Rightarrow>
          (case read_message error of
             Some thrown \<Rightarrow> (Rejected thrown, snd p)
           | None \<Rightarrow>
               (fst (fetchDemo cfg),
                snd p @
                log_error cfg ''Error fetching Polymesh TVL:'' @
                log_info cfg ''Falling back to DEMO MODE...'' @
                snd (fetchDemo cfg)))
      | Resolved result \<Rightarrow> p
      | Pending \<Rightarrow> p)"

definition fetch_finally ::
  "polymesh option \<Rightarrow> adapter_result promise \<Rightarrow> adapter_result promise" where
  "fetch_finally connection p =
     (case fst p of
        Pending \<Rightarrow> p
      | _ \<Rightarrow>
          (case connection of
             None \<Rightarrow> p
           | Some polymesh \<Rightarrow>
               (case disconnect polymesh of
                  Pending \<Rightarrow> (Pending, snd p @ [Disconnect_called])
                | Resolved u \<Rightarrow> (fst p, snd p @ [Disconnect_called])
                | Rejected e \<Rightarrow> (fst p, snd p @ [Disconnect_called]))))"

definition fetch :: "config \<Rightarrow> world \<Rightarrow> adapter_result promise" where
  "fetch cfg w =
     (if DEMO_MODE cfg then fetchDemo cfg
      else
        case fetch_try cfg w of
          (connection, p) \<Rightarrow> fetch_finally connection (fetch_catch cfg p))"

definition tvl :: "config \<Rightarrow> world \<Rightarrow> number \<Rightarrow> number \<Rightarrow> adapter_result promise" where
  "tvl cfg w timestamp block = fetch cfg w"

text \<open>
  The exported object. Both entries of the chain's adapter are the function \<open>fetch\<close>, which
  has no parameters: called with a timestamp and a block, it ignores them.
\<close>

record chain_adapter =
  adapter_tvl :: "number \<Rightarrow> number \<Rightarrow> adapter_result promise"
  adapter_fetch :: "number \<Rightarrow> number \<Rightarrow> adapter_result promise"

record module_exports =
  timetravel :: bool
  misrepresentedTokens :: bool
  methodology :: string
  start :: nat
  chain :: "string \<times> chain_adapter"

definition exports :: "config \<Rightarrow> world \<Rightarrow> module_exports" where
  "exports cfg w =
     \<lparr> timetravel = False,
       misrepresentedTokens = False,
       methodology =
         ''Polymesh TVL includes staked POLYX tokens and treasury holdings. '' @
         ''Staked tokens are locked in the consensus mechanism (Proof of Stake). '' @
         ''Treasury holdings represent governance-locked funds. '' @
         ''Data is fetched directly from Polymesh blockchain via Polymesh SDK and Polkadot.js API. '' @
         ''Prices are sourced from CoinGecko with fallback to cached values.'',
       start = MAINNET_LAUNCH_TIMESTAMP cfg,
       chain =
         (CHAIN_NAME cfg,
          \<lparr> adapter_tvl = (\<lambda>timestamp block. fetch cfg w),
            adapter_fetch = (\<lambda>timestamp block. fetch cfg w) \<rparr>) \<rparr>"

subsection \<open>What a sub-query throws, and which calls settle\<close>

text \<open>
  The value thrown inside the \<open>try\<close> block of a guarded sub-query, if any: the rejection of
  the active era or of the era's total stake for the staking query, of the account lookup of
  a configured treasury for the treasury query. \<open>staking_settles\<close>, \<open>treasury_settles\<close> and
  \<open>calls_settle\<close> say that every call the sub-query, or the whole run, awaits settles.
\<close>

definition staking_thrown :: "polkadot_api \<Rightarrow> thrown option" where
  "staking_thrown api =
     (case query_staking api of
        None \<Rightarrow> None
      | Some staking \<Rightarrow>
          (case activeEra staking of
             Rejected e \<Rightarrow> Some e
           | Resolved (Some era) \<Rightarrow>
               (case erasTotalStake staking era of Rejected e \<Rightarrow> Some e | _ \<Rightarrow> None)
           | _ \<Rightarrow> None))"

definition treasury_thrown :: "config \<Rightarrow> polkadot_api \<Rightarrow> thrown option" where
  "treasury_thrown cfg api =
     (case TREASURY_ACCOUNT cfg of
        None \<Rightarrow> None
      | Some treasury \<Rightarrow>
          if treasury = [] then None
          else (case system_account api treasury of Rejected e \<Rightarrow> Some e | _ \<Rightarrow> None))"

definition staking_settles :: "polkadot_api \<Rightarrow> bool" where
  "staking_settles api =
     (case query_staking api of
        None \<Rightarrow> True
      | Some staking \<Rightarrow>
          (case activeEra staking of
             Pending \<Rightarrow> False
           | Resolved (Some era) \<Rightarrow> settled (erasTotalStake staking era)
           | _ \<Rightarrow> True))"

definition treasury_settles :: "config \<Rightarrow> polkadot_api \<Rightarrow> bool" where
  "treasury_settles cfg api =
     (case TREASURY_ACCOUNT cfg of
        None \<Rightarrow> True
      | Some treasury \<Rightarrow> treasury = [] \<or> settled (system_account api treasury))"

definition calls_settle :: "config \<Rightarrow> world \<Rightarrow> bool" where
  "calls_settle cfg w =
     (case Polymesh_connect w (RPC_ENDPOINT cfg) of
        Pending \<Rightarrow> False
      | Rejected e \<Rightarrow> True
      | Resolved polymesh \<Rightarrow>
          settled (axios_get w) \<and>
          settled (balances_totalIssuance (polkadotApi polymesh)) \<and>
          staking_settles (polkadotApi polymesh) \<and>
          treasury_settles cfg (polkadotApi polymesh) \<and>
          settled (disconnect polymesh))"

text \<open>
  Every value thrown at the program in one run: by the connection, or else by the price
  service, by the operations on the price it reports, by the total-issuance query and inside
  the two guarded sub-queries. (What \<open>disconnect\<close> throws is swallowed and not listed.)
  \<open>is_Error\<close> holds of the thrown values whose message reads and prints.
\<close>

fun is_Error :: "thrown \<Rightarrow> bool" where
  "is_Error (Error m) = True"
| "is_Error _ = False"

definition price_thrown :: "world \<Rightarrow> thrown list" where
  "price_thrown w =
     (case axios_get w of
        Resolved (Some usd) \<Rightarrow>
          (case greater_than_zero usd of Inl t \<Rightarrow> [t] | Inr b \<Rightarrow> []) @
          (case print_value usd of Some t \<Rightarrow> [t] | None \<Rightarrow> []) @
          (case factor usd of Inl t \<Rightarrow> [t] | Inr n \<Rightarrow> [])
      | _ \<Rightarrow> [])"

definition thrown_values :: "config \<Rightarrow> world \<Rightarrow> thrown list" where
  "thrown_values cfg w =
     (case Polymesh_connect w (RPC_ENDPOINT cfg) of
        Pending \<Rightarrow> []
      | Rejected e \<Rightarrow> [e]
      | Resolved polymesh \<Rightarrow>
          rejection (axios_get w) @ price_thrown w @
          rejection (balances_totalIssuance (polkadotApi polymesh)) @
          (case staking_thrown (polkadotApi polymesh) of Some e \<Rightarrow> [e] | None \<Rightarrow> []) @
          (case treasury_thrown cfg (polkadotApi polymesh) of Some e \<Rightarrow> [e] | None \<Rightarrow> []))"

subsection \<open>Sample environments and runs\<close>

text \<open>
  Concrete inputs at which the general results below are instantiated: the environment with
  no variable set and the one with \<open>DEMO_MODE=true\<close>; a chain that answers every query (and
  a network that connects to it, with a price service that reports 0.25); one
  whose staking and account queries fail with Error objects; one whose total issuance fails
  with an Error object; one whose total issuance rejects with \<open>null\<close>; one whose total issuance
  fails with an Error object after its active era has rejected with \<open>null\<close>; chains whose
  active era rejects with \<open>null\<close>, or never answers, while the total issuance answers; a
  network that refuses the connection, and one that never answers; a price service that
  rejects with \<open>null\<close>, and one that reports the price \<open>true\<close>.
\<close>

definition default_env :: env where
  "default_env = \<lparr> env_POLYMESH_RPC = None, env_DEMO_MODE = None, env_SILENT_MODE = None \<rparr>"

definition demo_env :: env where
  "demo_env = \<lparr> env_POLYMESH_RPC = None, env_DEMO_MODE = Some ''true'', env_SILENT_MODE = None \<rparr>"

definition treasury_config :: config where
  "treasury_config = (CONFIG default_env) \<lparr> TREASURY_ACCOUNT := Some ''treasury-account'' \<rparr>"

definition healthy_api :: polkadot_api where
  "healthy_api =
     \<lparr> balances_totalIssuance = Resolved 1000000000,
       query_staking =
         Some \<lparr> activeEra = Resolved (Some 7),
                erasTotalStake = (\<lambda>era. Resolved (Some 300000000)) \<rparr>,
       system_account = (\<lambda>account. Resolved (Some 50000000)),
       queries_race = 0 \<rparr>"

definition degraded_api :: polkadot_api where
  "degraded_api =
     \<lparr> balances_totalIssuance = Resolved 1000000000,
       query_staking =
         Some \<lparr> activeEra = Rejected (Error ''era lookup failed''),
                erasTotalStake = (\<lambda>era. Resolved (Some 300000000)) \<rparr>,
       system_account = (\<lambda>account. Rejected (Error ''account lookup failed'')),
       queries_race = 0 \<rparr>"

definition failing_api :: polkadot_api where
  "failing_api =
     healthy_api \<lparr> balances_totalIssuance := Rejected (Error ''issuance lookup failed'') \<rparr>"

definition null_issuance_api :: polkadot_api where
  "null_issuance_api = healthy_api \<lparr> balances_totalIssuance := Rejected Nullish \<rparr>"


definition null_staking_api :: polkadot_api where
  "null_staking_api =
     healthy_api
       \<lparr> query_staking :=
           Some \<lparr> activeEra = Rejected Nullish,
                  erasTotalStake = (\<lambda>era. Resolved (Some 300000000)) \<rparr> \<rparr>"

definition hanging_staking_api :: polkadot_api where
  "hanging_staking_api =
     healthy_api
       \<lparr> query_staking :=
           Some \<lparr> activeEra = Pending,
                  erasTotalStake = (\<lambda>era. Resolved (Some 300000000)) \<rparr> \<rparr>"

definition healthy_polymesh :: polymesh where
  "healthy_polymesh = \<lparr> polkadotApi = healthy_api, disconnect = Resolved () \<rparr>"

definition degraded_polymesh :: polymesh where
  "degraded_polymesh = \<lparr> polkadotApi = degraded_api, disconnect = Resolved () \<rparr>"

definition failing_polymesh :: polymesh where
  "failing_polymesh =
     \<lparr> polkadotApi = failing_api, disconnect = Rejected (Error ''socket already closed'') \<rparr>"

definition null_issuance_polymesh :: polymesh where
  "null_issuance_polymesh = \<lparr> polkadotApi = null_issuance_api, disconnect = Resolved () \<rparr>"

definition null_staking_polymesh :: polymesh where
  "null_staking_polymesh = \<lparr> polkadotApi = null_staking_api, disconnect = Resolved () \<rparr>"

definition hanging_staking_polymesh :: polymesh where
  "hanging_staking_polymesh = \<lparr> polkadotApi = hanging_staking_api, disconnect = Resolved () \<rparr>"


definition healthy_world :: world where
  "healthy_world =
     \<lparr> Polymesh_connect = (\<lambda>url. Resolved healthy_polymesh),
       axios_get = Resolved (Some (Number_value (Num (1 / 4)))),
       fetch_race = 0 \<rparr>"

definition offline_world :: world where
  "offline_world =
     \<lparr> Polymesh_connect = (\<lambda>url. Rejected (Error ''connection refused'')),
       axios_get = Rejected (Error ''timeout of 5000ms exceeded''),
       fetch_race = 0 \<rparr>"

definition failing_world :: world where
  "failing_world =
     \<lparr> Polymesh_connect = (\<lambda>url. Resolved failing_polymesh),
       axios_get = Resolved (Some (Number_value (Num (1 / 4)))),
       fetch_race = 0 \<rparr>"

definition null_issuance_world :: world where
  "null_issuance_world =
     \<lparr> Polymesh_connect = (\<lambda>url. Resolved null_issuance_polymesh),
       axios_get = Resolved (Some (Number_value (Num (1 / 4)))),
       fetch_race = 0 \<rparr>"

definition hanging_world :: world where
  "hanging_world = offline_world \<lparr> Polymesh_connect := (\<lambda>url. Pending) \<rparr>"

definition null_price_world :: world where
  "null_price_world = offline_world \<lparr> axios_get := Rejected Nullish \<rparr>"

text \<open>The value \<open>true\<close>: truthy, \<open>true > 0\<close> holds, it prints, and a product multiplies by 1.\<close>

definition js_true :: js_value where
  "js_true = Other_value True (Inr True) None (Inr (Num 1))"

definition true_price_world :: world where
  "true_price_world = offline_world \<lparr> axios_get := Resolved (Some js_true) \<rparr>"

section \<open>Properties\<close>

subsection \<open>Rounding to binary64\<close>

lemma round_ties_even_error: "\<bar>of_int (round_ties_even x) - x\<bar> \<le> 1 / 2"
proof -
  have "of_int \<lfloor>x\<rfloor> \<le> x" "x < of_int \<lfloor>x\<rfloor> + 1" by linarith+
  then show ?thesis
    unfolding round_ties_even_def Let_def by (auto simp: abs_le_iff)
qed

lemma round_ties_even_of_int: "round_ties_even (of_int n) = n"
  by (simp add: round_ties_even_def)

lemma round_ties_even_ge: "of_int n \<le> x \<Longrightarrow> n \<le> round_ties_even x"
proof -
  assume "of_int n \<le> x"
  then have "n \<le> \<lfloor>x\<rfloor>" by (simp add: le_floor_iff)
  then show ?thesis unfolding round_ties_even_def Let_def by auto
qed

lemma round_ties_even_le: "x \<le> of_int n \<Longrightarrow> round_ties_even x \<le> n"
proof -
  assume h: "x \<le> of_int n"
  show ?thesis
  proof (cases "x = of_int n")
    case True then show ?thesis by (simp add: round_ties_even_of_int)
  next
    case False
    with h have "x < of_int n" by simp
    then have "\<lfloor>x\<rfloor> < n" by (simp add: floor_less_iff)
    then show ?thesis unfolding round_ties_even_def Let_def by auto
  qed
qed

lemma round_ties_even_half_up:
  assumes "of_int n - 1 / 2 \<le> x" "even n"
  shows "n \<le> round_ties_even x"
proof -
  have "of_int (n - 1) \<le> x" using assms(1) by simp
  then have f: "n - 1 \<le> \<lfloor>x\<rfloor>" by (simp only: le_floor_iff)
  show ?thesis
  proof (cases "n \<le> \<lfloor>x\<rfloor>")
    case True
    then show ?thesis unfolding round_ties_even_def Let_def by auto
  next
    case False
    with f have fl: "\<lfloor>x\<rfloor> = n - 1" by simp
    have odd: "odd (n - 1)" using assms(2) by simp
    have "\<not> x - of_int (n - 1) < 1 / 2" using assms(1) by simp
    then show ?thesis using odd unfolding round_ties_even_def Let_def fl by auto
  qed
qed

lemma round_ties_even_below_half:
  assumes "x < of_int n - 1 / 2"
  shows "round_ties_even x \<le> n - 1"
proof -
  have "x < of_int n" using assms by simp
  then have f: "\<lfloor>x\<rfloor> \<le> n - 1" by (simp add: floor_less_iff)
  show ?thesis
  proof (cases "\<lfloor>x\<rfloor> = n - 1")
    case True
    have "x - of_int (n - 1) < 1 / 2" using assms by simp
    then show ?thesis unfolding round_ties_even_def Let_def True by simp
  next
    case False
    with f have "\<lfloor>x\<rfloor> \<le> n - 2" by simp
    then show ?thesis unfolding round_ties_even_def Let_def by auto
  qed
qed

lemma round_ties_even_eqI:
  assumes "of_int n - 1 / 2 < x" "x < of_int n + 1 / 2"
  shows "round_ties_even x = n"
proof -
  have "of_int (n - 1) \<le> x" "x < of_int (n + 1)" using assms by simp_all
  then have "n - 1 \<le> \<lfloor>x\<rfloor>" "\<lfloor>x\<rfloor> < n + 1" by (simp_all only: le_floor_iff floor_less_iff)
  then consider "\<lfloor>x\<rfloor> = n" | "\<lfloor>x\<rfloor> = n - 1" by linarith
  then show ?thesis
  proof cases
    case 1
    then show ?thesis using assms unfolding round_ties_even_def Let_def by simp
  next
    case 2
    then show ?thesis using assms unfolding round_ties_even_def Let_def by simp
  qed
qed

text \<open>The binary exponent: \<open>ilog2\<close> meets its specification, and the specification fixes it.\<close>

lemma ilog2_bounds:
  assumes "0 < x"
  shows "2 powi ilog2 x \<le> x" and "x < 2 powi (ilog2 x + 1)"
proof -
  obtain p q where pq: "quotient_of x = (p, q)" by (cases "quotient_of x")
  then have q: "0 < q" and x: "x = of_int p / of_int q"
    by (simp_all add: quotient_of_denom_pos quotient_of_div)
  from assms x q have p: "0 < p" by (simp add: zero_less_divide_iff)
  define bp where "bp = bitlen p"
  define bq where "bq = bitlen q"
  have bp1: "1 \<le> bp" and bq1: "1 \<le> bq"
    using p q by (auto simp: bp_def bq_def bitlen_alt_def)
  have "2 ^ nat (bp - 1) \<le> p" "p < 2 ^ nat bp" "2 ^ nat (bq - 1) \<le> q" "q < 2 ^ nat bq"
    using bitlen_bounds[OF p] bitlen_bounds[OF q] by (simp_all add: bp_def bq_def)
  then have "(of_int (2 ^ nat (bp - 1)) :: rat) \<le> of_int p"
    "(of_int p :: rat) < of_int (2 ^ nat bp)"
    "(of_int (2 ^ nat (bq - 1)) :: rat) \<le> of_int q"
    "(of_int q :: rat) < of_int (2 ^ nat bq)"
    by (simp_all only: of_int_le_iff of_int_less_iff)
  then have P: "(2::rat) powi (bp - 1) \<le> of_int p" "(of_int p :: rat) < 2 powi bp"
    and Q: "(2::rat) powi (bq - 1) \<le> of_int q" "(of_int q :: rat) < 2 powi bq"
    using bp1 bq1 by (simp_all add: power_int_nonneg_exp)
  have qpos: "(0::rat) < of_int q" using q by simp
  have up: "x < 2 powi (bp - bq + 1)"
  proof -
    have "x < 2 powi bp / of_int q"
      unfolding x using P(2) qpos by (simp add: divide_strict_right_mono)
    also have "\<dots> \<le> 2 powi bp / 2 powi (bq - 1)"
      using Q(1) qpos by (intro divide_left_mono) simp_all
    also have "\<dots> = 2 powi (bp - (bq - 1))" by (simp add: power_int_diff)
    finally show ?thesis by (simp add: algebra_simps)
  qed
  have lo: "2 powi (bp - bq - 1) < x"
  proof -
    have "(2::rat) powi (bp - bq - 1) = 2 powi (bp - 1) / 2 powi bq"
      by (simp add: power_int_diff[symmetric] algebra_simps)
    also have "\<dots> < 2 powi (bp - 1) / of_int q"
      using Q(2) qpos by (intro divide_strict_left_mono) simp_all
    also have "\<dots> \<le> x" unfolding x using P(1) qpos by (simp add: divide_right_mono)
    finally show ?thesis .
  qed
  have il: "ilog2 x = (if 2 powi (bp - bq) \<le> x then bp - bq else bp - bq - 1)"
    by (simp add: ilog2_def pq bp_def bq_def Let_def)
  show "2 powi ilog2 x \<le> x" using lo by (simp add: il)
  show "x < 2 powi (ilog2 x + 1)" using up by (auto simp: il not_le)
qed

lemma pow2_less_imp: "(2::rat) powi m < 2 powi n \<Longrightarrow> m < n"
proof (rule ccontr)
  assume lt: "(2::rat) powi m < 2 powi n" and "\<not> m < n"
  then have "n \<le> m" by simp
  then have "(2::rat) powi n \<le> 2 powi m" by (intro power_int_increasing) simp_all
  with lt show False by simp
qed

lemma ilog2_unique:
  assumes "0 < x" "2 powi k \<le> x" "x < 2 powi (k + 1)"
  shows "ilog2 x = k"
proof -
  have "(2::rat) powi k < 2 powi (ilog2 x + 1)"
    using assms(2) ilog2_bounds(2)[OF assms(1)] by simp
  then have a: "k < ilog2 x + 1" by (rule pow2_less_imp)
  have "(2::rat) powi ilog2 x < 2 powi (k + 1)"
    using assms(3) ilog2_bounds(1)[OF assms(1)] by simp
  then have b: "ilog2 x < k + 1" by (rule pow2_less_imp)
  from a b show ?thesis by simp
qed

text \<open>Splitting a power of two at the 53 bits of the significand.\<close>

lemma pow2_split52: "(2::rat) powi k = 2 ^ 52 * 2 powi (k - 52)"
proof -
  have "(2::rat) powi (52 + (k - 52)) = 2 powi 52 * 2 powi (k - 52)"
    by (rule power_int_add) simp
  moreover have "52 + (k - 52) = k" by simp
  ultimately show ?thesis by (simp only: power_int_numeral)
qed

lemma pow2_split53: "(2::rat) powi (k + 1) = 2 ^ 53 * 2 powi (k - 52)"
proof -
  have "(2::rat) powi (53 + (k - 52)) = 2 powi 53 * 2 powi (k - 52)"
    by (rule power_int_add) simp
  moreover have "53 + (k - 52) = k + 1" by simp
  ultimately show ?thesis by (simp only: power_int_numeral)
qed

lemma scaled_range:
  assumes "2 powi k \<le> (x::rat)" "x < 2 powi (k + 1)"
  shows "2 ^ 52 \<le> x / 2 powi (k - 52)" and "x / 2 powi (k - 52) < 2 ^ 53"
proof -
  note a = pow2_split52[of k] and b = pow2_split53[of k]
  have pos: "(0::rat) < 2 powi (k - 52)" by simp
  show "2 ^ 52 \<le> x / 2 powi (k - 52)"
    using assms(1) pos unfolding a by (simp add: pos_le_divide_eq)
  show "x / 2 powi (k - 52) < 2 ^ 53"
    using assms(2) pos unfolding b by (simp add: pos_divide_less_eq)
qed

lemma overflow_threshold_pow: "overflow_threshold = 2 powi 1024"
  by (simp only: overflow_threshold_def power_int_numeral)

lemma pow2_971: "(2::rat) ^ 53 * 2 powi 971 = overflow_threshold"
  using pow2_split53[of 1023] by (simp add: overflow_threshold_pow)

lemma pow2_970: "(2::rat) powi 971 = 2 * 2 ^ 970"
proof -
  have "(2::rat) powi (1 + 970) = 2 powi 1 * 2 powi 970" by (rule power_int_add) simp
  then show ?thesis by (simp only: power_int_numeral power_int_1_right) simp
qed

text \<open>
  In the normal range the quantum of \<open>x\<close> is \<open>2 powi (k - 52)\<close>, where \<open>k\<close> is the binary
  exponent of \<open>x\<close>.
\<close>

lemma round_double_unfold:
  assumes "0 < x" "2 powi k \<le> x" "x < 2 powi (k + 1)" "- 1022 \<le> k"
  shows "round_double x =
    (if overflow_threshold \<le> of_int (round_ties_even (x / 2 powi (k - 52))) * 2 powi (k - 52)
     then PosInfinity
     else Num (of_int (round_ties_even (x / 2 powi (k - 52))) * 2 powi (k - 52)))"
proof -
  have ax: "\<bar>x\<bar> = x" using assms(1) by simp
  have il: "ilog2 x = k" using assms by (simp add: ilog2_unique)
  have e: "max (k - 52) (- 1074) = k - 52" using assms(4) by simp
  have "(0::rat) \<le> x / 2 powi (k - 52)" using assms(1) by simp
  then have "0 \<le> round_ties_even (x / 2 powi (k - 52))"
    using round_ties_even_ge[of 0] by simp
  then have "(0::rat) \<le> of_int (round_ties_even (x / 2 powi (k - 52))) * 2 powi (k - 52)"
    by simp
  then have ar: "\<bar>of_int (round_ties_even (x / 2 powi (k - 52))) * 2 powi (k - 52)\<bar>
      = (of_int (round_ties_even (x / 2 powi (k - 52))) * 2 powi (k - 52) :: rat)"
    by (rule abs_of_nonneg)
  show ?thesis
    unfolding round_double_def ax il e Let_def ar using assms(1) by simp
qed

lemma round_double_normal:
  assumes "0 < x" "2 powi k \<le> x" "x < 2 powi (k + 1)" "- 1022 \<le> k" "k < 1023"
  shows "round_double x = Num (of_int (round_ties_even (x / 2 powi (k - 52))) * 2 powi (k - 52))"
proof -
  let ?y = "x / 2 powi (k - 52)"
  have "?y \<le> of_int (2 ^ 53)" using scaled_range(2)[OF assms(2,3)] by simp
  then have "round_ties_even ?y \<le> 2 ^ 53" by (rule round_ties_even_le)
  then have "(of_int (round_ties_even ?y) :: rat) \<le> of_int (2 ^ 53)" by (simp only: of_int_le_iff)
  then have "of_int (round_ties_even ?y) * 2 powi (k - 52) \<le> (2::rat) ^ 53 * 2 powi (k - 52)"
    by (intro mult_right_mono) simp_all
  also have "\<dots> = 2 powi (k + 1)" by (simp only: pow2_split53)
  also have "\<dots> \<le> 2 powi 1023" using assms(5) by (intro power_int_increasing) simp_all
  also have "\<dots> < 2 powi 1024" by (intro power_int_strict_increasing) simp_all
  also have "\<dots> = overflow_threshold" by (simp only: overflow_threshold_def power_int_numeral)
  finally have "\<not> overflow_threshold \<le> of_int (round_ties_even ?y) * 2 powi (k - 52)" by simp
  then show ?thesis using round_double_unfold[OF assms(1-4)] by simp
qed

text \<open>How a concrete value is rounded: name its exponent and the integer its significand rounds to.\<close>

lemma round_double_eqI:
  assumes "0 < x" "2 powi k \<le> x" "x < 2 powi (k + 1)" "- 1022 \<le> k" "k < 1023"
    and "of_int n - 1 / 2 < x / 2 powi (k - 52)" "x / 2 powi (k - 52) < of_int n + 1 / 2"
  shows "round_double x = Num (of_int n * 2 powi (k - 52))"
  using round_double_normal[OF assms(1-5)] round_ties_even_eqI[OF assms(6,7)] by simp

lemma round_double_unfold_ilog2:
  assumes "2 powi (- 1022) \<le> x"
  shows "0 < x" and "- 1022 \<le> ilog2 x" and "2 powi ilog2 x \<le> x" and "x < 2 powi (ilog2 x + 1)"
proof -
  have "(0::rat) < 2 powi (- 1022)" by (rule zero_less_power_int) simp
  with assms show pos: "0 < x" by simp
  show "2 powi ilog2 x \<le> x" and up: "x < 2 powi (ilog2 x + 1)"
    using ilog2_bounds[OF pos] by simp_all
  from assms up have "(2::rat) powi (- 1022) < 2 powi (ilog2 x + 1)" by simp
  then have "- 1022 < ilog2 x + 1" by (rule pow2_less_imp)
  then show "- 1022 \<le> ilog2 x" by simp
qed

text \<open>
  Below \<open>2 ^ 1024 - 2 ^ 970\<close> a value of the normal range rounds to a finite Number, with a
  relative error of at most \<open>2 powi (- 53)\<close>; from there on it rounds to \<open>Infinity\<close>.
\<close>

lemma round_double_finite:
  assumes lo: "2 powi (- 1022) \<le> x" and hi: "x < overflow_threshold - 2 ^ 970"
  shows "\<exists>r. round_double x = Num r \<and> \<bar>r - x\<bar> \<le> x / 2 ^ 53"
proof -
  define k where "k = ilog2 x"
  note b = round_double_unfold_ilog2[OF lo, folded k_def]
  define s :: rat where "s = 2 powi (k - 52)"
  define n where "n = round_ties_even (x / s)"
  have spos: "0 < s" by (simp add: s_def)
  have unf: "round_double x =
      (if overflow_threshold \<le> of_int n * s then PosInfinity else Num (of_int n * s))"
    unfolding n_def s_def by (rule round_double_unfold[OF b(1,3,4,2)])
  have "(2::rat) powi k < 2 powi 1024"
    using b(3) hi by (simp add: overflow_threshold_pow)
  then have k1024: "k < 1024" by (rule pow2_less_imp)
  have fin: "of_int n * s < overflow_threshold"
  proof (cases "k < 1023")
    case True
    have "x / s \<le> of_int (2 ^ 53)" using scaled_range(2)[OF b(3,4)] by (simp add: s_def)
    then have "n \<le> 2 ^ 53" unfolding n_def by (rule round_ties_even_le)
    then have "(of_int n :: rat) \<le> of_int (2 ^ 53)" by (simp only: of_int_le_iff)
    then have "of_int n * s \<le> (2::rat) ^ 53 * s" using spos by (intro mult_right_mono) simp_all
    also have "\<dots> = 2 powi (k + 1)" by (simp only: pow2_split53 s_def)
    also have "\<dots> \<le> 2 powi 1023" using True by (intro power_int_increasing) simp_all
    also have "\<dots> < 2 powi 1024" by (intro power_int_strict_increasing) simp_all
    finally show ?thesis by (simp only: overflow_threshold_pow)
  next
    case False
    with k1024 have k: "k = 1023" by simp
    have s: "s = 2 * 2 ^ 970" by (simp add: s_def k pow2_970)
    have ot: "overflow_threshold = 2 ^ 53 * s" using pow2_971 by (simp add: s_def k)
    have s2: "(2::rat) ^ 970 = s / 2" by (simp add: s)
    from hi have "x < 2 ^ 53 * s - s / 2" by (simp only: ot s2)
    then have "x / s < (2 ^ 53 * s - s / 2) / s" using spos by (rule divide_strict_right_mono)
    also have "\<dots> = of_int (2 ^ 53) - 1 / 2" using spos by (simp add: diff_divide_distrib)
    finally have "n \<le> 2 ^ 53 - 1" unfolding n_def by (rule round_ties_even_below_half)
    then have "(of_int n :: rat) \<le> of_int (2 ^ 53 - 1)" by (simp only: of_int_le_iff)
    then have "of_int n * s \<le> (of_int (2 ^ 53 - 1) :: rat) * s"
      using spos by (intro mult_right_mono) simp_all
    also have "\<dots> = 2 ^ 53 * s - s" by (simp add: algebra_simps)
    also have "\<dots> < 2 ^ 53 * s" using spos by simp
    finally show ?thesis by (simp only: ot)
  qed
  then have r: "round_double x = Num (of_int n * s)" using unf by simp
  have "\<bar>of_int n * s - x\<bar> = \<bar>of_int n - x / s\<bar> * s"
  proof -
    have "of_int n * s - x = (of_int n - x / s) * s" using spos by (simp add: algebra_simps)
    then show ?thesis using spos by (simp add: abs_mult)
  qed
  also have "\<dots> \<le> 1 / 2 * s"
    using round_ties_even_error[of "x / s"] spos unfolding n_def
    by (intro mult_right_mono) simp_all
  also have "\<dots> = 2 powi k / 2 ^ 53" using pow2_split52[of k] by (simp add: s_def)
  also have "\<dots> \<le> x / 2 ^ 53" using b(3) by (simp add: divide_right_mono)
  finally show ?thesis using r by blast
qed

lemma round_double_overflow:
  assumes "overflow_threshold - 2 ^ 970 \<le> x"
  shows "round_double x = PosInfinity"
proof -
  have half: "(2::rat) powi 1023 \<le> overflow_threshold - 2 ^ 970"
  proof -
    have "(2::rat) powi 1023 = 2 ^ 52 * 2 powi 971" using pow2_split52[of 1023] by simp
    also have "\<dots> \<le> 2 ^ 53 * 2 powi 971 - 2 ^ 970" by (simp add: pow2_970)
    finally show ?thesis by (simp only: pow2_971)
  qed
  with assms have x1023: "(2::rat) powi 1023 \<le> x" by simp
  have "(2::rat) powi (- 1022) \<le> 2 powi 1023" by (intro power_int_increasing) simp_all
  with x1023 have lo: "2 powi (- 1022) \<le> x" by simp
  define k where "k = ilog2 x"
  note b = round_double_unfold_ilog2[OF lo, folded k_def]
  define s :: rat where "s = 2 powi (k - 52)"
  define n where "n = round_ties_even (x / s)"
  have spos: "0 < s" by (simp add: s_def)
  have unf: "round_double x =
      (if overflow_threshold \<le> of_int n * s then PosInfinity else Num (of_int n * s))"
    unfolding n_def s_def by (rule round_double_unfold[OF b(1,3,4,2)])
  have "(2::rat) powi 1023 < 2 powi (k + 1)" using x1023 b(4) by simp
  then have "1023 < k + 1" by (rule pow2_less_imp)
  then have k1023: "1023 \<le> k" by simp
  have "overflow_threshold \<le> of_int n * s"
  proof (cases "k = 1023")
    case True
    have s: "s = 2 * 2 ^ 970" by (simp add: s_def True pow2_970)
    have ot: "overflow_threshold = 2 ^ 53 * s" using pow2_971 by (simp add: s_def True)
    have s2: "(2::rat) ^ 970 = s / 2" by (simp add: s)
    from assms have "2 ^ 53 * s - s / 2 \<le> x" by (simp only: ot s2)
    then have "(2 ^ 53 * s - s / 2) / s \<le> x / s"
      using less_imp_le[OF spos] by (rule divide_right_mono)
    moreover have "(2 ^ 53 * s - s / 2) / s = of_int (2 ^ 53) - 1 / 2"
      using spos by (simp add: diff_divide_distrib)
    ultimately have "of_int (2 ^ 53) - 1 / 2 \<le> x / s" by (simp only:)
    then have "2 ^ 53 \<le> n" unfolding n_def by (rule round_ties_even_half_up) simp
    then have "(of_int (2 ^ 53) :: rat) \<le> of_int n" by (simp only: of_int_le_iff)
    then have "(2::rat) ^ 53 * s \<le> of_int n * s" using spos by (intro mult_right_mono) simp_all
    then show ?thesis by (simp only: ot)
  next
    case False
    with k1023 have "1024 \<le> k" by simp
    then have "(2::rat) powi 1024 \<le> 2 powi k" by (intro power_int_increasing) simp_all
    also have "\<dots> = 2 ^ 52 * s" by (simp only: s_def pow2_split52[of k])
    also have "\<dots> \<le> of_int n * s"
    proof -
      have "of_int (2 ^ 52) \<le> x / s" using scaled_range(1)[OF b(3,4)] by (simp add: s_def)
      then have "2 ^ 52 \<le> n" unfolding n_def by (rule round_ties_even_ge)
      then have "(of_int (2 ^ 52) :: rat) \<le> of_int n" by (simp only: of_int_le_iff)
      then show ?thesis using spos by (intro mult_right_mono) simp_all
    qed
    finally show ?thesis by (simp only: overflow_threshold_pow)
  qed
  then show ?thesis using unf by simp
qed

text \<open>The values this program's constants and sample inputs round to.\<close>

lemma fallback_price_value: "round_double (3 / 10) = Num (5404319552844595 / 18014398509481984)"
  using round_double_eqI[of "3 / 10" "- 2" 5404319552844595] by simp

lemma mock_tvl_usd: "js_mul (Num 350) (round_double (3 / 10)) = Num 105"
  unfolding fallback_price_value js_mul.simps
  using round_double_eqI[of "350 * (5404319552844595 / 18014398509481984)" 6 7388718138654720]
  by simp

lemma Math_pow_10_6: "Math_pow 10 6 = Num 1000000"
  unfolding Math_pow_def
  using round_double_eqI[of 1000000 19 8589934592000000] by simp

subsection \<open>Unit conversion in binary64\<close>

lemma pow2_neg_le_one: "(2::rat) powi (- 1022) \<le> 1"
proof -
  have "(2::rat) powi (- 1022) \<le> 2 powi 0" by (intro power_int_increasing) simp_all
  then show ?thesis by simp
qed

lemma round_double_of_int:
  assumes "0 < n" "n < 2 ^ 53"
  shows "round_double (of_int n) = Num (of_int n)"
proof -
  let ?x = "of_int n :: rat"
  have one: "1 \<le> ?x" using assms(1) by simp
  with pow2_neg_le_one have lo: "2 powi (- 1022) \<le> ?x" by simp
  define k where "k = ilog2 ?x"
  note b = round_double_unfold_ilog2[OF lo, folded k_def]
  have "(2::rat) powi 0 < 2 powi (k + 1)" using one b(4) by simp
  then have "0 < k + 1" by (rule pow2_less_imp)
  then have k0: "0 \<le> k" by simp
  have "?x < of_int (2 ^ 53)" using assms(2) by (simp only: of_int_less_iff)
  then have "(2::rat) powi k < 2 powi 53" using b(3) by simp
  then have k53: "k < 53" by (rule pow2_less_imp)
  have inv: "(2::rat) powi (k - 52) * 2 ^ nat (52 - k) = 1"
  proof -
    have "(2::rat) powi ((k - 52) + (52 - k)) = 2 powi (k - 52) * 2 powi (52 - k)"
      by (rule power_int_add) simp
    moreover have "(2::rat) powi (52 - k) = 2 ^ nat (52 - k)"
      using k53 by (simp add: power_int_nonneg_exp)
    ultimately show ?thesis by simp
  qed
  have pos: "(0::rat) < 2 powi (k - 52)" by simp
  have scaled: "?x / 2 powi (k - 52) = of_int (n * 2 ^ nat (52 - k))"
  proof -
    have "?x = ?x * (2 powi (k - 52) * 2 ^ nat (52 - k))" by (simp only: inv mult_1_right)
    then have "?x = (?x * 2 ^ nat (52 - k)) * 2 powi (k - 52)" by (simp only: mult_ac)
    then have "?x / 2 powi (k - 52) = ?x * 2 ^ nat (52 - k)"
      using pos by (simp add: divide_eq_eq)
    then show ?thesis by simp
  qed
  have "round_double ?x =
      Num (of_int (round_ties_even (?x / 2 powi (k - 52))) * 2 powi (k - 52))"
    using k53 by (intro round_double_normal[OF b(1,3,4,2)]) simp
  also have "\<dots> = Num (of_int (n * 2 ^ nat (52 - k)) * 2 powi (k - 52))"
    by (simp only: scaled round_ties_even_of_int)
  also have "of_int (n * 2 ^ nat (52 - k)) * 2 powi (k - 52) = ?x"
  proof -
    have "of_int (n * 2 ^ nat (52 - k)) * 2 powi (k - 52) =
        ?x * (2 powi (k - 52) * 2 ^ nat (52 - k))" by (simp add: mult_ac)
    then show ?thesis by (simp only: inv mult_1_right)
  qed
  finally show ?thesis .
qed

lemma Number_exact:
  assumes "0 \<le> a" "a < 2 ^ 53"
  shows "Number a = Num (of_int a)"
proof (cases "a = 0")
  case True
  then show ?thesis by (simp add: Number_def round_double_def)
next
  case False
  with assms(1) have "0 < a" by simp
  then show ?thesis unfolding Number_def using assms(2) by (rule round_double_of_int)
qed

lemma toPolyx_whole:
  assumes "POLYX_DECIMALS cfg = 6" "0 < m" "m * 1000000 < 2 ^ 53"
  shows "toPolyx cfg (m * 1000000) = Num (of_int m)"
proof -
  have m: "m < 2 ^ 53" using assms(2,3) by simp
  have "Number (m * 1000000) = Num (of_int (m * 1000000))"
    using assms(2,3) by (intro Number_exact) simp_all
  then have "toPolyx cfg (m * 1000000) = round_double (of_int m)"
    by (simp add: toPolyx_def assms(1) Math_pow_10_6)
  then show ?thesis by (simp add: round_double_of_int[OF assms(2) m])
qed

lemma toPolyx_1:
  "POLYX_DECIMALS cfg = 6 \<Longrightarrow>
     toPolyx cfg 1 = Num (4722366482869645 / 4722366482869645213696)"
  using round_double_eqI[of "1 / 1000000" "- 20" 4722366482869645]
  by (simp add: toPolyx_def Math_pow_10_6 Number_exact)

lemma toPolyx_4:
  "POLYX_DECIMALS cfg = 6 \<Longrightarrow>
     toPolyx cfg 4 = Num (4722366482869645 / 1180591620717411303424)"
  using round_double_eqI[of "4 / 1000000" "- 18" 4722366482869645]
  by (simp add: toPolyx_def Math_pow_10_6 Number_exact)

lemma toPolyx_5:
  "POLYX_DECIMALS cfg = 6 \<Longrightarrow>
     toPolyx cfg 5 = Num (5902958103587057 / 1180591620717411303424)"
  using round_double_eqI[of "5 / 1000000" "- 18" 5902958103587057]
  by (simp add: toPolyx_def Math_pow_10_6 Number_exact)

lemma one_plus_four_micro:
  "js_add (Num (4722366482869645 / 4722366482869645213696))
          (Num (4722366482869645 / 1180591620717411303424)) =
     Num (5902958103587056 / 1180591620717411303424)"
  using round_double_eqI[of
      "4722366482869645 / 4722366482869645213696 + 4722366482869645 / 1180591620717411303424"
      "- 18" 5902958103587056]
  by simp

lemma Number_finite:
  assumes "0 < a" "of_int a < overflow_threshold - 2 ^ 970"
  shows "\<exists>r. Number a = Num r \<and> \<bar>r - of_int a\<bar> \<le> of_int a / 2 ^ 53"
proof -
  have "(1::rat) \<le> of_int a" using assms(1) by simp
  with pow2_neg_le_one have "2 powi (- 1022) \<le> (of_int a :: rat)" by simp
  then show ?thesis unfolding Number_def using assms(2) by (rule round_double_finite)
qed

lemma toPolyx_overflow:
  assumes "POLYX_DECIMALS cfg = 6" "overflow_threshold - 2 ^ 970 \<le> of_int a"
  shows "toPolyx cfg a = PosInfinity"
proof -
  have "Number a = PosInfinity" unfolding Number_def using assms(2) by (rule round_double_overflow)
  then show ?thesis by (simp add: toPolyx_def assms(1) Math_pow_10_6)
qed

lemma toPolyx_finite:
  assumes d: "POLYX_DECIMALS cfg = 6" and a0: "0 \<le> a"
    and hi: "of_int a < overflow_threshold - 2 ^ 970"
  shows "\<exists>r. toPolyx cfg a = Num r \<and>
           \<bar>r - of_int a / 10 ^ 6\<bar> \<le> of_int a / 10 ^ 6 * (2 / 2 ^ 53 + 1 / 2 ^ 106)"
proof (cases "a = 0")
  case True
  have "toPolyx cfg 0 = Num 0"
    by (simp add: toPolyx_def d Math_pow_10_6 Number_def round_double_def)
  then show ?thesis using True by simp
next
  case False
  with a0 have apos: "0 < a" by simp
  define x :: rat where "x = of_int a"
  define u :: rat where "u = 1 / 2 ^ 53"
  define X :: rat where "X = x / 1000000"
  have x1: "1 \<le> x" using apos by (simp add: x_def)
  have u0: "0 \<le> u" and u1: "u \<le> 1 / 2" by (simp_all add: u_def)
  have X0: "0 \<le> X" using x1 by (simp add: X_def)
  from Number_finite[OF apos hi] obtain r1
    where r1: "Number a = Num r1" and e1: "\<bar>r1 - x\<bar> \<le> x * u"
    by (auto simp: x_def u_def)
  define y where "y = r1 / 1000000"
  have r1_lo: "x - x * u \<le> r1" and r1_hi: "r1 \<le> x + x * u" using e1 by (simp_all add: abs_le_iff)
  have xu: "x * u \<le> x * (1 / 2)" using u1 x1 by (intro mult_left_mono) simp_all
  have half: "1 / 2 \<le> r1" using r1_lo xu x1 by linarith
  have ylo: "2 powi (- 1022) \<le> y"
  proof -
    have "(2::rat) powi (- 1022) \<le> 2 powi (- 21)" by (intro power_int_increasing) simp_all
    also have "\<dots> \<le> (1 / 2) / 1000000" by simp
    also have "\<dots> \<le> y" unfolding y_def using half by (intro divide_right_mono) simp_all
    finally show ?thesis .
  qed
  have yhi: "y < overflow_threshold - 2 ^ 970"
  proof -
    have "r1 \<le> x + x * (1 / 2)" using r1_hi xu by linarith
    then have "r1 / 1000000 \<le> (x + x * (1 / 2)) / 1000000"
      by (intro divide_right_mono) simp_all
    also have "\<dots> \<le> x" using x1 by simp
    finally have "y \<le> x" by (simp only: y_def)
    then show ?thesis using hi by (simp add: x_def)
  qed
  from round_double_finite[OF ylo yhi] obtain r
    where r: "round_double y = Num r" and e2: "\<bar>r - y\<bar> \<le> y * u"
    by (auto simp: u_def)
  have res: "toPolyx cfg a = Num r"
    by (simp add: toPolyx_def d Math_pow_10_6 r1 r[unfolded y_def])
  have yX: "\<bar>y - X\<bar> \<le> X * u"
  proof -
    have "y - X = (r1 - x) / 1000000" by (simp add: y_def X_def diff_divide_distrib)
    then have "\<bar>y - X\<bar> = \<bar>r1 - x\<bar> / 1000000" by (simp only: abs_divide abs_numeral)
    also have "\<dots> \<le> (x * u) / 1000000" using e1 by (intro divide_right_mono) simp_all
    finally show ?thesis by (simp add: X_def)
  qed
  then have "y \<le> X + X * u" by (simp add: abs_le_iff)
  then have "y * u \<le> (X + X * u) * u" using u0 by (rule mult_right_mono)
  then have yu: "y * u \<le> X * u + X * (u * u)" by (simp add: algebra_simps)
  have "\<bar>r - X\<bar> \<le> \<bar>r - y\<bar> + \<bar>y - X\<bar>" by simp
  also have "\<dots> \<le> (X * u + X * (u * u)) + X * u" using e2 yu yX by simp
  also have "\<dots> = X * (2 * u + u * u)" by (simp add: algebra_simps)
  finally have "\<bar>r - X\<bar> \<le> X * (2 * u + u * u)" .
  moreover have "2 * u + u * u = 2 / 2 ^ 53 + 1 / 2 ^ 106" by (simp add: u_def)
  ultimately have "\<bar>r - X\<bar> \<le> X * (2 / 2 ^ 53 + 1 / 2 ^ 106)" by (simp only:)
  then show ?thesis using res by (simp add: X_def x_def)
qed


subsection \<open>The shared catch block and Promise.all\<close>

lemma catch_warn_fst:
  "fst (catch_warn cfg warning effects error fallback) =
     (case print_message error of Some t \<Rightarrow> Rejected t | None \<Rightarrow> Resolved fallback)"
  by (simp add: catch_warn_def split: option.splits)

lemma catch_warn_snd:
  "snd (catch_warn cfg warning effects error fallback) =
     (case print_message error of Some t \<Rightarrow> effects | None \<Rightarrow> effects @ log_warn cfg warning)"
  by (simp add: catch_warn_def split: option.splits)

lemma first_rejected_member: "ts \<noteq> [] \<Longrightarrow> first_rejected race ts \<in> set ts"
  by (simp add: first_rejected_def)

lemma first_rejected_single: "first_rejected race [t] = t"
  by (simp add: first_rejected_def)

lemma rejection_empty: "rejection r = [] \<longleftrightarrow> (\<forall>t. r \<noteq> Rejected t)"
  by (cases r) simp_all

lemma Promise_all2_resolved:
  "fst p1 = Resolved v1 \<Longrightarrow> fst p2 = Resolved v2 \<Longrightarrow>
   fst (Promise_all2 race p1 p2) = Resolved (v1, v2)"
  by (simp add: Promise_all2_def)

lemma Promise_all2_only_second_rejected:
  "rejection (fst p1) = [] \<Longrightarrow> fst p2 = Rejected t \<Longrightarrow>
   fst (Promise_all2 race p1 p2) = Rejected t"
  by (simp add: Promise_all2_def first_rejected_single)

lemma Promise_all2_settles:
  "fst p1 \<noteq> Pending \<Longrightarrow> fst p2 \<noteq> Pending \<Longrightarrow> fst (Promise_all2 race p1 p2) \<noteq> Pending"
  by (cases "fst p1"; cases "fst p2") (simp_all add: Promise_all2_def)

lemma Promise_all2_snd: "snd (Promise_all2 race p1 p2) = snd p1 @ snd p2"
  by (simp add: Promise_all2_def Let_def)

lemma Promise_all3_resolved:
  "fst p1 = Resolved v1 \<Longrightarrow> fst p2 = Resolved v2 \<Longrightarrow> fst p3 = Resolved v3 \<Longrightarrow>
   fst (Promise_all3 race p1 p2 p3) = Resolved (v1, v2, v3)"
  by (simp add: Promise_all3_def)

lemma Promise_all3_first_rejected:
  "fst p1 = Rejected t \<Longrightarrow>
   \<exists>r \<in> set (t # rejection (fst p2) @ rejection (fst p3)).
     fst (Promise_all3 race p1 p2 p3) = Rejected r"
  using first_rejected_member[of "t # rejection (fst p2) @ rejection (fst p3)" race]
  by (simp add: Promise_all3_def)

lemma Promise_all3_only_first_rejected:
  "fst p1 = Rejected t \<Longrightarrow> rejection (fst p2) = [] \<Longrightarrow> rejection (fst p3) = [] \<Longrightarrow>
   fst (Promise_all3 race p1 p2 p3) = Rejected t"
  by (simp add: Promise_all3_def first_rejected_single)

lemma Promise_all3_Resolved_iff:
  "fst (Promise_all3 race p1 p2 p3) = Resolved v \<longleftrightarrow>
     (\<exists>v1 v2 v3. v = (v1, v2, v3) \<and> fst p1 = Resolved v1 \<and> fst p2 = Resolved v2 \<and>
        fst p3 = Resolved v3)"
  by (cases "fst p1"; cases "fst p2"; cases "fst p3") (auto simp: Promise_all3_def)

lemma Promise_all3_settles:
  "fst p1 \<noteq> Pending \<Longrightarrow> fst p2 \<noteq> Pending \<Longrightarrow> fst p3 \<noteq> Pending \<Longrightarrow>
   fst (Promise_all3 race p1 p2 p3) \<noteq> Pending"
  by (cases "fst p1"; cases "fst p2"; cases "fst p3") (simp_all add: Promise_all3_def)

lemma Promise_all3_snd: "snd (Promise_all3 race p1 p2 p3) = snd p1 @ snd p2 @ snd p3"
  by (simp add: Promise_all3_def Let_def)

subsection \<open>The price feed\<close>

lemma fetchPolyxPriceFromCoinGecko_fst:
  "fst (fetchPolyxPriceFromCoinGecko cfg w) =
     (case axios_get w of
        Pending \<Rightarrow> Pending
      | Rejected e \<Rightarrow> (case print_message e of Some t \<Rightarrow> Rejected t | None \<Rightarrow> Resolved None)
      | Resolved None \<Rightarrow> Resolved None
      | Resolved (Some usd) \<Rightarrow> Resolved (if ToBoolean usd then Some usd else None))"
  by (simp add: fetchPolyxPriceFromCoinGecko_def catch_warn_fst
      split: outcome.splits option.splits)

text \<open>The outcome of \<open>getPolyxPrice\<close>, case by case of what the price service does.\<close>

lemma getPolyxPrice_fst:
  "fst (getPolyxPrice cfg w) =
     (case axios_get w of
        Pending \<Rightarrow> Pending
      | Rejected e \<Rightarrow>
          (case print_message e of
             Some t \<Rightarrow> Rejected t
           | None \<Rightarrow> Resolved (Number_value (POLYX_FALLBACK_PRICE cfg)))
      | Resolved None \<Rightarrow> Resolved (Number_value (POLYX_FALLBACK_PRICE cfg))
      | Resolved (Some usd) \<Rightarrow>
          if \<not> ToBoolean usd then Resolved (Number_value (POLYX_FALLBACK_PRICE cfg))
          else
            (case greater_than_zero usd of
               Inl t \<Rightarrow> Rejected t
             | Inr False \<Rightarrow> Resolved (Number_value (POLYX_FALLBACK_PRICE cfg))
             | Inr True \<Rightarrow>
                 (case print_value usd of Some t \<Rightarrow> Rejected t | None \<Rightarrow> Resolved usd)))"
proof -
  obtain r t where rt: "fetchPolyxPriceFromCoinGecko cfg w = (r, t)"
    by (cases "fetchPolyxPriceFromCoinGecko cfg w")
  then have r: "r =
     (case axios_get w of
        Pending \<Rightarrow> Pending
      | Rejected e \<Rightarrow> (case print_message e of Some t \<Rightarrow> Rejected t | None \<Rightarrow> Resolved None)
      | Resolved None \<Rightarrow> Resolved None
      | Resolved (Some usd) \<Rightarrow> Resolved (if ToBoolean usd then Some usd else None))"
    using fetchPolyxPriceFromCoinGecko_fst[of cfg w] by simp
  show ?thesis
    unfolding getPolyxPrice_def rt r
    by (simp split: outcome.splits option.splits sum.splits bool.splits)
qed

lemma js_gt_zero_truthy: "js_gt p (Num 0) \<Longrightarrow> truthy p"
  by (cases p) auto

lemma getPolyxPrice_Number:
  "axios_get w = Resolved (Some (Number_value n)) \<Longrightarrow>
   fst (getPolyxPrice cfg w) =
     Resolved (Number_value (if js_gt n (Num 0) then n else POLYX_FALLBACK_PRICE cfg))"
  by (auto simp: getPolyxPrice_fst dest: js_gt_zero_truthy)

subsection \<open>The chain queries\<close>

lemma queryTotalStaked_fst:
  "fst (queryTotalStaked cfg api) =
     (case query_staking api of
        None \<Rightarrow> Resolved 0
      | Some staking \<Rightarrow>
          (case activeEra staking of
             Pending \<Rightarrow> Pending
           | Rejected e \<Rightarrow>
               (case print_message e of Some t \<Rightarrow> Rejected t | None \<Rightarrow> Resolved 0)
           | Resolved None \<Rightarrow> Resolved 0
           | Resolved (Some era) \<Rightarrow>
               (case erasTotalStake staking era of
                  Pending \<Rightarrow> Pending
                | Rejected e \<Rightarrow>
                    (case print_message e of Some t \<Rightarrow> Rejected t | None \<Rightarrow> Resolved 0)
                | Resolved None \<Rightarrow> Resolved 0
                | Resolved (Some v) \<Rightarrow> Resolved v)))"
  by (simp add: queryTotalStaked_def catch_warn_fst split: option.splits outcome.splits)

lemma queryTreasuryBalance_fst:
  "fst (queryTreasuryBalance cfg api) =
     (case TREASURY_ACCOUNT cfg of
        None \<Rightarrow> Resolved 0
      | Some treasury \<Rightarrow>
          if treasury = [] then Resolved 0
          else
            (case system_account api treasury of
               Pending \<Rightarrow> Pending
             | Rejected e \<Rightarrow>
                 (case print_message e of Some t \<Rightarrow> Rejected t | None \<Rightarrow> Resolved 0)
             | Resolved None \<Rightarrow> Resolved 0
             | Resolved (Some v) \<Rightarrow> Resolved v))"
  by (simp add: queryTreasuryBalance_def catch_warn_fst split: option.splits outcome.splits)

text \<open>
  A guarded query whose \<open>try\<close> block throws a value with a printable message returns 0; one
  whose calls settle and throw nothing but such values returns.
\<close>

lemma queryTotalStaked_throws_zero:
  "staking_thrown api = Some e \<Longrightarrow> print_message e = None \<Longrightarrow>
   fst (queryTotalStaked cfg api) = Resolved 0"
  by (auto simp: queryTotalStaked_fst staking_thrown_def split: option.splits outcome.splits)

lemma queryTreasuryBalance_throws_zero:
  "treasury_thrown cfg api = Some e \<Longrightarrow> print_message e = None \<Longrightarrow>
   fst (queryTreasuryBalance cfg api) = Resolved 0"
  by (auto simp: queryTreasuryBalance_fst treasury_thrown_def
      split: option.splits outcome.splits if_splits)

lemma queryTotalStaked_returns:
  assumes "staking_settles api"
    and "\<forall>e. staking_thrown api = Some e \<longrightarrow> print_message e = None"
  shows "\<exists>s. fst (queryTotalStaked cfg api) = Resolved s"
  using assms
  by (auto simp: queryTotalStaked_fst staking_thrown_def staking_settles_def
      split: option.splits outcome.splits)

lemma queryTreasuryBalance_returns:
  assumes "treasury_settles cfg api"
    and "\<forall>e. treasury_thrown cfg api = Some e \<longrightarrow> print_message e = None"
  shows "\<exists>t. fst (queryTreasuryBalance cfg api) = Resolved t"
  using assms
  by (auto simp: queryTreasuryBalance_fst treasury_thrown_def treasury_settles_def
      split: option.splits outcome.splits if_splits)

lemma queryTotalStaked_settles:
  "staking_settles api \<Longrightarrow> fst (queryTotalStaked cfg api) \<noteq> Pending"
  by (auto simp: queryTotalStaked_fst staking_settles_def split: option.splits outcome.splits)

lemma queryTreasuryBalance_settles:
  "treasury_settles cfg api \<Longrightarrow> fst (queryTreasuryBalance cfg api) \<noteq> Pending"
  by (auto simp: queryTreasuryBalance_fst treasury_settles_def
      split: option.splits outcome.splits if_splits)

lemma queryChainData_fst:
  "fst (queryChainData cfg p) =
     (case fst (Promise_all3 (queries_race (polkadotApi p))
                  (balances_totalIssuance (polkadotApi p), [TotalIssuance_called])
                  (queryTotalStaked cfg (polkadotApi p))
                  (queryTreasuryBalance cfg (polkadotApi p))) of
        Pending \<Rightarrow> Pending
      | Rejected e \<Rightarrow> Rejected e
      | Resolved (i, s, t) \<Rightarrow>
          Resolved \<lparr> totalIssuance = i, totalStaked = s, treasuryBalance = t \<rparr>)"
  by (simp add: queryChainData_def Let_def split: prod.splits outcome.splits)

lemma queryChainData_snd:
  "snd (queryChainData cfg p) =
     [TotalIssuance_called] @ snd (queryTotalStaked cfg (polkadotApi p)) @
     snd (queryTreasuryBalance cfg (polkadotApi p))"
proof -
  have "snd (queryChainData cfg p) =
     snd (Promise_all3 (queries_race (polkadotApi p))
            (balances_totalIssuance (polkadotApi p), [TotalIssuance_called])
            (queryTotalStaked cfg (polkadotApi p))
            (queryTreasuryBalance cfg (polkadotApi p)))"
    by (simp add: queryChainData_def Let_def split: prod.splits outcome.splits)
  then show ?thesis by (simp add: Promise_all3_snd)
qed

lemma queryChainData_resolved:
  assumes "balances_totalIssuance (polkadotApi p) = Resolved i"
    and "fst (queryTotalStaked cfg (polkadotApi p)) = Resolved s"
    and "fst (queryTreasuryBalance cfg (polkadotApi p)) = Resolved t"
  shows "fst (queryChainData cfg p) =
           Resolved \<lparr> totalIssuance = i, totalStaked = s, treasuryBalance = t \<rparr>"
  using assms by (simp add: queryChainData_fst Promise_all3_resolved)

lemma queryChainData_Resolved_imp:
  assumes "fst (queryChainData cfg p) = Resolved cd"
  shows "balances_totalIssuance (polkadotApi p) = Resolved (totalIssuance cd) \<and>
         fst (queryTotalStaked cfg (polkadotApi p)) = Resolved (totalStaked cd) \<and>
         fst (queryTreasuryBalance cfg (polkadotApi p)) = Resolved (treasuryBalance cd)"
proof -
  let ?all = "Promise_all3 (queries_race (polkadotApi p))
                (balances_totalIssuance (polkadotApi p), [TotalIssuance_called])
                (queryTotalStaked cfg (polkadotApi p))
                (queryTreasuryBalance cfg (polkadotApi p))"
  from assms obtain i s t where v: "fst ?all = Resolved (i, s, t)"
    and cd: "cd = \<lparr> totalIssuance = i, totalStaked = s, treasuryBalance = t \<rparr>"
    by (auto simp: queryChainData_fst split: outcome.splits prod.splits)
  from v show ?thesis unfolding Promise_all3_Resolved_iff by (simp add: cd)
qed

lemma queryChainData_rejects:
  assumes "balances_totalIssuance (polkadotApi p) = Rejected e"
  shows "\<exists>r \<in> set (e # rejection (fst (queryTotalStaked cfg (polkadotApi p))) @
                      rejection (fst (queryTreasuryBalance cfg (polkadotApi p)))).
           fst (queryChainData cfg p) = Rejected r"
proof -
  have "fst (balances_totalIssuance (polkadotApi p), [TotalIssuance_called]) = Rejected e"
    using assms by simp
  from Promise_all3_first_rejected[OF this, of "queryTotalStaked cfg (polkadotApi p)"
      "queryTreasuryBalance cfg (polkadotApi p)" "queries_race (polkadotApi p)"]
  obtain r where "r \<in> set (e # rejection (fst (queryTotalStaked cfg (polkadotApi p))) @
                      rejection (fst (queryTreasuryBalance cfg (polkadotApi p))))"
    and "fst (Promise_all3 (queries_race (polkadotApi p))
                (balances_totalIssuance (polkadotApi p), [TotalIssuance_called])
                (queryTotalStaked cfg (polkadotApi p))
                (queryTreasuryBalance cfg (polkadotApi p))) = Rejected r"
    by blast
  then show ?thesis by (auto simp: queryChainData_fst)
qed

lemma queryChainData_rejects_alone:
  assumes "balances_totalIssuance (polkadotApi p) = Rejected e"
    and "rejection (fst (queryTotalStaked cfg (polkadotApi p))) = []"
    and "rejection (fst (queryTreasuryBalance cfg (polkadotApi p))) = []"
  shows "fst (queryChainData cfg p) = Rejected e"
  using queryChainData_rejects[OF assms(1), of cfg] assms(2,3) by simp

lemma queryChainData_settles:
  assumes "settled (balances_totalIssuance (polkadotApi p))"
    and "staking_settles (polkadotApi p)" and "treasury_settles cfg (polkadotApi p)"
  shows "fst (queryChainData cfg p) \<noteq> Pending"
proof -
  have "fst (balances_totalIssuance (polkadotApi p), [TotalIssuance_called]) \<noteq> Pending"
    using assms(1) by (cases "balances_totalIssuance (polkadotApi p)") simp_all
  from Promise_all3_settles[OF this queryTotalStaked_settles[OF assms(2)]
      queryTreasuryBalance_settles[OF assms(3)]]
  show ?thesis by (auto simp: queryChainData_fst split: outcome.splits prod.splits)
qed

lemma no_account_call_in_staking:
  "Account_called a \<notin> set (snd (queryTotalStaked cfg api))"
  by (simp add: queryTotalStaked_def catch_warn_snd log_warn_def
      split: option.splits outcome.splits)

subsection \<open>The entry points\<close>

lemma getPolyxPrice_settles: "settled (axios_get w) \<Longrightarrow> fst (getPolyxPrice cfg w) \<noteq> Pending"
  by (auto simp: getPolyxPrice_fst split: outcome.splits option.splits sum.splits bool.splits)

lemma fetchDemo_fst:
  "fst (fetchDemo cfg) =
     Resolved [CHAIN_NAME cfg \<mapsto> js_mul (Num 350) (POLYX_FALLBACK_PRICE cfg)]"
  by (simp add: fetchDemo_def mockData_def)

lemma fetch_try_connect_rejected:
  assumes "Polymesh_connect w (RPC_ENDPOINT cfg) = Rejected e" and "read_message e = None"
  shows "fst (fetch_try cfg w) = None \<and> fst (snd (fetch_try cfg w)) = Rejected e"
  using assms by (simp add: fetch_try_def initializePolymesh_def)

lemma fetch_try_connect_pending:
  assumes "Polymesh_connect w (RPC_ENDPOINT cfg) = Pending"
  shows "fst (snd (fetch_try cfg w)) = Pending"
  using assms by (simp add: fetch_try_def initializePolymesh_def)

lemma fetch_try_connection:
  "fst (fetch_try cfg w) = Some p \<longleftrightarrow> Polymesh_connect w (RPC_ENDPOINT cfg) = Resolved p"
  by (auto simp: fetch_try_def initializePolymesh_def Let_def
      split: outcome.splits option.splits prod.splits sum.splits)

lemma fetch_try_rejected:
  assumes "Polymesh_connect w (RPC_ENDPOINT cfg) = Resolved p"
    and "fst (Promise_all2 (fetch_race w) (getPolyxPrice cfg w) (queryChainData cfg p)) =
           Rejected e"
  shows "fst (snd (fetch_try cfg w)) = Rejected e"
proof -
  obtain r t where rt:
    "Promise_all2 (fetch_race w) (getPolyxPrice cfg w) (queryChainData cfg p) = (r, t)"
    by (cases "Promise_all2 (fetch_race w) (getPolyxPrice cfg w) (queryChainData cfg p)")
  with assms(2) have r: "r = Rejected e" by simp
  show ?thesis
    using assms(1) by (simp add: fetch_try_def initializePolymesh_def rt r)
qed

lemma fetch_try_resolved:
  assumes "Polymesh_connect w (RPC_ENDPOINT cfg) = Resolved p"
    and "fst (getPolyxPrice cfg w) = Resolved (Number_value price)"
    and "fst (queryChainData cfg p) = Resolved cd"
  shows "fst (snd (fetch_try cfg w)) =
           Resolved [CHAIN_NAME cfg \<mapsto> tvlUsd (calculateTVL cfg cd price)]"
proof -
  obtain r t where rt:
    "Promise_all2 (fetch_race w) (getPolyxPrice cfg w) (queryChainData cfg p) = (r, t)"
    by (cases "Promise_all2 (fetch_race w) (getPolyxPrice cfg w) (queryChainData cfg p)")
  have "fst (Promise_all2 (fetch_race w) (getPolyxPrice cfg w) (queryChainData cfg p)) =
          Resolved (Number_value price, cd)"
    using assms(2,3) by (rule Promise_all2_resolved)
  with rt have r: "r = Resolved (Number_value price, cd)" by simp
  show ?thesis
    using assms(1) by (simp add: fetch_try_def initializePolymesh_def rt r Let_def)
qed

lemma fetch_try_issuance_rejected:
  assumes "Polymesh_connect w (RPC_ENDPOINT cfg) = Resolved p"
    and "balances_totalIssuance (polkadotApi p) = Rejected e"
    and "rejection (fst (getPolyxPrice cfg w)) = []"
    and "rejection (fst (queryTotalStaked cfg (polkadotApi p))) = []"
    and "rejection (fst (queryTreasuryBalance cfg (polkadotApi p))) = []"
  shows "fst (snd (fetch_try cfg w)) = Rejected e"
proof -
  have "fst (queryChainData cfg p) = Rejected e"
    using assms(2,4,5) by (rule queryChainData_rejects_alone)
  with assms(3)
  have "fst (Promise_all2 (fetch_race w) (getPolyxPrice cfg w) (queryChainData cfg p)) =
          Rejected e"
    by (rule Promise_all2_only_second_rejected)
  with assms(1) show ?thesis by (rule fetch_try_rejected)
qed

lemma fetch_try_settles:
  assumes "calls_settle cfg w"
  shows "fst (snd (fetch_try cfg w)) \<noteq> Pending"
proof (cases "Polymesh_connect w (RPC_ENDPOINT cfg)")
  case (Resolved p)
  with assms have s: "settled (axios_get w)"
    "settled (balances_totalIssuance (polkadotApi p))"
    "staking_settles (polkadotApi p)" "treasury_settles cfg (polkadotApi p)"
    by (simp_all add: calls_settle_def)
  obtain r t where rt:
    "Promise_all2 (fetch_race w) (getPolyxPrice cfg w) (queryChainData cfg p) = (r, t)"
    by (cases "Promise_all2 (fetch_race w) (getPolyxPrice cfg w) (queryChainData cfg p)")
  have "fst (Promise_all2 (fetch_race w) (getPolyxPrice cfg w) (queryChainData cfg p)) \<noteq>
          Pending"
    using getPolyxPrice_settles[OF s(1)] queryChainData_settles[OF s(2,3,4)]
    by (rule Promise_all2_settles)
  with rt have r: "r \<noteq> Pending" by simp
  show ?thesis
    using r
    by (simp add: fetch_try_def initializePolymesh_def Resolved rt Let_def
        split: outcome.splits option.splits prod.splits sum.splits)
next
  case (Rejected e)
  then show ?thesis
    by (simp add: fetch_try_def initializePolymesh_def split: option.splits)
next
  case Pending
  with assms show ?thesis by (simp add: calls_settle_def)
qed

text \<open>
  A run in which everything answers: 300 POLYX staked, no treasury, at the price 0.25.
\<close>

lemma healthy_run:
  "fst (snd (fetch_try (CONFIG default_env) healthy_world)) = Resolved [''polymesh'' \<mapsto> Num 75]"
proof -
  let ?cfg = "CONFIG default_env"
  let ?cd = "\<lparr> totalIssuance = 1000000000, totalStaked = 300000000, treasuryBalance = 0 \<rparr>
    :: chain_data"
  have six: "POLYX_DECIMALS ?cfg = 6" by (simp add: CONFIG_def)
  have c: "Polymesh_connect healthy_world (RPC_ENDPOINT ?cfg) = Resolved healthy_polymesh"
    by (simp add: healthy_world_def)
  have p: "fst (getPolyxPrice ?cfg healthy_world) = Resolved (Number_value (Num (1 / 4)))"
    by (simp add: getPolyxPrice_fst healthy_world_def)
  have q: "fst (queryChainData ?cfg healthy_polymesh) = Resolved ?cd"
    by (rule queryChainData_resolved)
      (simp_all add: queryTotalStaked_fst queryTreasuryBalance_fst healthy_polymesh_def
        healthy_api_def CONFIG_def)
  have "toPolyx ?cfg 300000000 = Num 300" using toPolyx_whole[OF six, of 300] by simp
  moreover have "round_double 75 = Num 75" using round_double_of_int[of 75] by simp
  ultimately have "tvlUsd (calculateTVL ?cfg ?cd (Num (1 / 4))) = Num 75"
    by (simp add: calculateTVL_def Let_def)
  moreover have "CHAIN_NAME ?cfg = ''polymesh''" by (simp add: CONFIG_def)
  ultimately show ?thesis using fetch_try_resolved[OF c p q] by simp
qed

text \<open>
  What \<open>catch\<close> and \<open>finally\<close> make of the outcome of the \<open>try\<close> block, when the connection,
  if there is one, answers the \<open>disconnect\<close>.
\<close>

lemma fetch_returns:
  assumes "\<not> DEMO_MODE cfg" and "fst (snd (fetch_try cfg w)) = Resolved result"
    and "\<forall>p. fst (fetch_try cfg w) = Some p \<longrightarrow> settled (disconnect p)"
  shows "fst (fetch cfg w) = Resolved result"
proof -
  obtain c r t where ct: "fetch_try cfg w = (c, (r, t))"
    by (cases "fetch_try cfg w") auto
  with assms(2) have r: "r = Resolved result" by simp
  from assms(3) ct have d: "\<forall>p. c = Some p \<longrightarrow> settled (disconnect p)" by simp
  show ?thesis
    using assms(1) d
    by (cases c; cases "disconnect (the c)")
      (auto simp: fetch_def ct r fetch_catch_def fetch_finally_def)
qed

lemma fetch_catches:
  assumes "\<not> DEMO_MODE cfg" and "fst (snd (fetch_try cfg w)) = Rejected e"
    and "read_message e = None"
    and "\<forall>p. fst (fetch_try cfg w) = Some p \<longrightarrow> settled (disconnect p)"
  shows "fst (fetch cfg w) = fst (fetchDemo cfg)"
proof -
  obtain c r t where ct: "fetch_try cfg w = (c, (r, t))"
    by (cases "fetch_try cfg w") auto
  with assms(2) have r: "r = Rejected e" by simp
  from assms(4) ct have d: "\<forall>p. c = Some p \<longrightarrow> settled (disconnect p)" by simp
  show ?thesis
    using assms(1,3) d
    by (cases c; cases "disconnect (the c)")
      (auto simp: fetch_def ct r fetch_catch_def fetch_finally_def fetchDemo_fst)
qed

lemma fetch_rejects:
  assumes "\<not> DEMO_MODE cfg" and "fst (snd (fetch_try cfg w)) = Rejected e"
    and "read_message e = Some t"
    and "\<forall>p. fst (fetch_try cfg w) = Some p \<longrightarrow> settled (disconnect p)"
  shows "fst (fetch cfg w) = Rejected t"
proof -
  obtain c r t' where ct: "fetch_try cfg w = (c, (r, t'))"
    by (cases "fetch_try cfg w") auto
  with assms(2) have r: "r = Rejected e" by simp
  from assms(4) ct have d: "\<forall>p. c = Some p \<longrightarrow> settled (disconnect p)" by simp
  show ?thesis
    using assms(1,3) d
    by (cases c; cases "disconnect (the c)")
      (auto simp: fetch_def ct r fetch_catch_def fetch_finally_def)
qed

lemma fetch_pending:
  assumes "\<not> DEMO_MODE cfg" and "fst (snd (fetch_try cfg w)) = Pending"
  shows "fst (fetch cfg w) = Pending"
proof -
  obtain c r t where ct: "fetch_try cfg w = (c, (r, t))"
    by (cases "fetch_try cfg w") auto
  with assms(2) have r: "r = Pending" by simp
  show ?thesis
    using assms(1) by (simp add: fetch_def ct r fetch_catch_def fetch_finally_def)
qed

lemma fetch_settles:
  assumes "calls_settle cfg w"
  shows "fst (fetch cfg w) \<noteq> Pending"
proof (cases "DEMO_MODE cfg")
  case True
  then show ?thesis by (simp add: fetch_def fetchDemo_fst)
next
  case False
  obtain c r t where ct: "fetch_try cfg w = (c, (r, t))"
    by (cases "fetch_try cfg w") auto
  from fetch_try_settles[OF assms] ct have r: "r \<noteq> Pending" by simp
  have d: "settled (disconnect p)" if "c = Some p" for p
  proof -
    from that ct have "fst (fetch_try cfg w) = Some p" by simp
    then have "Polymesh_connect w (RPC_ENDPOINT cfg) = Resolved p"
      by (simp add: fetch_try_connection)
    with assms show ?thesis by (simp add: calls_settle_def)
  qed
  have c: "fst (fetch_catch cfg (r, t)) \<noteq> Pending"
    using r by (cases r) (simp_all add: fetch_catch_def fetchDemo_fst split: option.splits)
  show ?thesis
  proof (cases c)
    case None
    then show ?thesis using False c by (simp add: fetch_def ct fetch_finally_def split: outcome.splits)
  next
    case (Some p)
    from d[OF Some] show ?thesis
      using False c Some
      by (cases "disconnect p") (simp_all add: fetch_def ct fetch_finally_def split: outcome.splits)
  qed
qed

text \<open>
  When everything thrown at the program is an ordinary Error object, so is everything the \<open>try\<close>
  block of \<open>fetch\<close> throws.
\<close>

lemma is_Error_message: "is_Error e \<Longrightarrow> read_message e = None \<and> print_message e = None"
  by (cases e) simp_all

lemma Promise_all2_rejection:
  assumes "list_all P (rejection (fst p1))" and "list_all P (rejection (fst p2))"
  shows "list_all P (rejection (fst (Promise_all2 race p1 p2)))"
proof (cases "rejection (fst p1) @ rejection (fst p2) = []")
  case True
  then show ?thesis
    by (cases "fst p1"; cases "fst p2") (simp_all add: Promise_all2_def)
next
  case False
  from first_rejected_member[OF False, of race] assms
  have "P (first_rejected race (rejection (fst p1) @ rejection (fst p2)))"
    by (auto simp: list_all_iff)
  with False show ?thesis by (simp add: Promise_all2_def)
qed

lemma getPolyxPrice_rejection:
  assumes "list_all is_Error (rejection (axios_get w) @ price_thrown w)"
  shows "list_all is_Error (rejection (fst (getPolyxPrice cfg w)))"
  using assms
  by (auto simp: getPolyxPrice_fst price_thrown_def dest: is_Error_message
      split: outcome.splits option.splits sum.splits bool.splits)

lemma queryTotalStaked_no_rejection:
  assumes "\<forall>e. staking_thrown api = Some e \<longrightarrow> is_Error e"
  shows "rejection (fst (queryTotalStaked cfg api)) = []"
  using assms
  by (auto simp: queryTotalStaked_fst staking_thrown_def dest: is_Error_message
      split: outcome.splits option.splits)

lemma queryTreasuryBalance_no_rejection:
  assumes "\<forall>e. treasury_thrown cfg api = Some e \<longrightarrow> is_Error e"
  shows "rejection (fst (queryTreasuryBalance cfg api)) = []"
  using assms
  by (auto simp: queryTreasuryBalance_fst treasury_thrown_def dest: is_Error_message
      split: outcome.splits option.splits if_splits)

lemma queryChainData_rejection:
  assumes "list_all is_Error (rejection (balances_totalIssuance (polkadotApi p)))"
    and "\<forall>e. staking_thrown (polkadotApi p) = Some e \<longrightarrow> is_Error e"
    and "\<forall>e. treasury_thrown cfg (polkadotApi p) = Some e \<longrightarrow> is_Error e"
  shows "list_all is_Error (rejection (fst (queryChainData cfg p)))"
proof (cases "balances_totalIssuance (polkadotApi p)")
  case (Rejected e)
  have "fst (queryChainData cfg p) = Rejected e"
    using Rejected queryTotalStaked_no_rejection[OF assms(2)]
      queryTreasuryBalance_no_rejection[OF assms(3)]
    by (rule queryChainData_rejects_alone)
  with assms(1) Rejected show ?thesis by simp
next
  case (Resolved v)
  have "\<forall>t. fst (queryChainData cfg p) \<noteq> Rejected t"
    using queryTotalStaked_no_rejection[OF assms(2), of cfg]
      queryTreasuryBalance_no_rejection[OF assms(3)] Resolved
    by (cases "fst (queryTotalStaked cfg (polkadotApi p))";
        cases "fst (queryTreasuryBalance cfg (polkadotApi p))")
      (simp_all add: queryChainData_fst Promise_all3_def)
  then show ?thesis by (simp add: rejection_empty[symmetric])
next
  case Pending
  have "\<forall>t. fst (queryChainData cfg p) \<noteq> Rejected t"
    using queryTotalStaked_no_rejection[OF assms(2), of cfg]
      queryTreasuryBalance_no_rejection[OF assms(3)] Pending
    by (cases "fst (queryTotalStaked cfg (polkadotApi p))";
        cases "fst (queryTreasuryBalance cfg (polkadotApi p))")
      (simp_all add: queryChainData_fst Promise_all3_def)
  then show ?thesis by (simp add: rejection_empty[symmetric])
qed

lemma getPolyxPrice_Resolved_thrown:
  assumes "fst (getPolyxPrice cfg w) = Resolved price"
  shows "set ((case factor price of Inl t \<Rightarrow> [t] | Inr n \<Rightarrow> []) @
              (case print_value price of Some t \<Rightarrow> [t] | None \<Rightarrow> [])) \<subseteq> set (price_thrown w)"
  using assms
  by (auto simp: getPolyxPrice_fst price_thrown_def
      split: outcome.splits option.splits sum.splits bool.splits if_splits)

lemma fetch_try_rejection:
  assumes "list_all is_Error (thrown_values cfg w)"
  shows "list_all is_Error (rejection (fst (snd (fetch_try cfg w))))"
proof (cases "Polymesh_connect w (RPC_ENDPOINT cfg)")
  case (Resolved p)
  with assms have price: "list_all is_Error (rejection (axios_get w) @ price_thrown w)"
    and issuance: "list_all is_Error (rejection (balances_totalIssuance (polkadotApi p)))"
    and staking: "\<forall>e. staking_thrown (polkadotApi p) = Some e \<longrightarrow> is_Error e"
    and treasury: "\<forall>e. treasury_thrown cfg (polkadotApi p) = Some e \<longrightarrow> is_Error e"
    by (simp_all add: thrown_values_def split: option.splits)
  obtain r t where rt:
    "Promise_all2 (fetch_race w) (getPolyxPrice cfg w) (queryChainData cfg p) = (r, t)"
    by (cases "Promise_all2 (fetch_race w) (getPolyxPrice cfg w) (queryChainData cfg p)")
  have "list_all is_Error (rejection
      (fst (Promise_all2 (fetch_race w) (getPolyxPrice cfg w) (queryChainData cfg p))))"
    using getPolyxPrice_rejection[OF price] queryChainData_rejection[OF issuance staking treasury]
    by (rule Promise_all2_rejection)
  with rt have r: "list_all is_Error (rejection r)" by simp
  show ?thesis
  proof (cases r)
    case (Resolved v)
    obtain price' cd where v: "v = (price', cd)" by (cases v)
    from rt Resolved v
    have "fst (Promise_all2 (fetch_race w) (getPolyxPrice cfg w) (queryChainData cfg p)) =
        Resolved (price', cd)"
      by simp
    then have "fst (getPolyxPrice cfg w) = Resolved price'"
      by (cases "fst (getPolyxPrice cfg w)"; cases "fst (queryChainData cfg p)")
        (simp_all add: Promise_all2_def split: if_splits)
    from getPolyxPrice_Resolved_thrown[OF this] price
    have "list_all is_Error ((case factor price' of Inl t \<Rightarrow> [t] | Inr n \<Rightarrow> []) @
              (case print_value price' of Some t \<Rightarrow> [t] | None \<Rightarrow> []))"
      by (auto simp: list_all_iff)
    then show ?thesis
      using \<open>Polymesh_connect w (RPC_ENDPOINT cfg) = Resolved p\<close>
      by (simp add: fetch_try_def initializePolymesh_def rt Resolved v Let_def
          split: sum.splits option.splits)
  next
    case (Rejected e)
    with r show ?thesis
      using \<open>Polymesh_connect w (RPC_ENDPOINT cfg) = Resolved p\<close>
      by (simp add: fetch_try_def initializePolymesh_def rt)
  next
    case Pending
    then show ?thesis
      using \<open>Polymesh_connect w (RPC_ENDPOINT cfg) = Resolved p\<close>
      by (simp add: fetch_try_def initializePolymesh_def rt)
  qed
next
  case (Rejected e)
  with assms have "is_Error e" by (simp add: thrown_values_def)
  then have "read_message e = None" by (simp add: is_Error_message)
  with Rejected assms show ?thesis
    by (simp add: fetch_try_def initializePolymesh_def thrown_values_def)
next
  case Pending
  then show ?thesis by (simp add: fetch_try_def initializePolymesh_def)
qed

lemma fetch_try_disconnect:
  assumes "calls_settle cfg w"
  shows "\<forall>p. fst (fetch_try cfg w) = Some p \<longrightarrow> settled (disconnect p)"
  using assms by (auto simp: fetch_try_connection calls_settle_def)

lemma fetch_resolves:
  assumes "calls_settle cfg w" and "list_all is_Error (thrown_values cfg w)"
  shows "\<exists>result. fst (fetch cfg w) = Resolved result"
proof (cases "DEMO_MODE cfg")
  case True
  then show ?thesis by (simp add: fetch_def fetchDemo_fst)
next
  case False
  note d = fetch_try_disconnect[OF assms(1)]
  show ?thesis
  proof (cases "fst (snd (fetch_try cfg w))")
    case (Resolved result)
    from fetch_returns[OF False Resolved d] show ?thesis by blast
  next
    case (Rejected e)
    with fetch_try_rejection[OF assms(2)] have "is_Error e" by simp
    then have "read_message e = None" by (simp add: is_Error_message)
    from fetch_catches[OF False Rejected this d] show ?thesis by (simp add: fetchDemo_fst)
  next
    case Pending
    with fetch_try_settles[OF assms(1)] show ?thesis by simp
  qed
qed

lemma fetch_try_issuance_rejects:
  assumes "Polymesh_connect w (RPC_ENDPOINT cfg) = Resolved p"
    and "balances_totalIssuance (polkadotApi p) = Rejected e"
  shows "\<exists>r. fst (snd (fetch_try cfg w)) = Rejected r"
proof -
  from queryChainData_rejects[OF assms(2), of cfg]
  obtain r where "fst (queryChainData cfg p) = Rejected r" by blast
  then have "rejection (fst (getPolyxPrice cfg w)) @ rejection (fst (queryChainData cfg p)) \<noteq> []"
    by simp
  then have "\<exists>r'. fst (Promise_all2 (fetch_race w) (getPolyxPrice cfg w) (queryChainData cfg p)) =
      Rejected r'"
    by (simp add: Promise_all2_def)
  then obtain r' where
    "fst (Promise_all2 (fetch_race w) (getPolyxPrice cfg w) (queryChainData cfg p)) = Rejected r'"
    by blast
  from fetch_try_rejected[OF assms(1) this] show ?thesis by blast
qed

lemma fetch_unguarded_failure:
  assumes "\<not> DEMO_MODE cfg" and "calls_settle cfg w"
    and "list_all is_Error (thrown_values cfg w)"
    and "(\<exists>e. Polymesh_connect w (RPC_ENDPOINT cfg) = Rejected e) \<or>
         (\<exists>p e. Polymesh_connect w (RPC_ENDPOINT cfg) = Resolved p \<and>
            balances_totalIssuance (polkadotApi p) = Rejected e)"
  shows "fst (fetch cfg w) = fst (fetchDemo cfg)"
proof -
  have "\<exists>r. fst (snd (fetch_try cfg w)) = Rejected r"
    using assms(4)
  proof (elim disjE exE conjE)
    fix e assume c: "Polymesh_connect w (RPC_ENDPOINT cfg) = Rejected e"
    with assms(3) have "is_Error e" by (simp add: thrown_values_def)
    then have "read_message e = None" by (simp add: is_Error_message)
    from fetch_try_connect_rejected[OF c this] show ?thesis by blast
  next
    fix p e assume "Polymesh_connect w (RPC_ENDPOINT cfg) = Resolved p"
      and "balances_totalIssuance (polkadotApi p) = Rejected e"
    then show ?thesis by (rule fetch_try_issuance_rejects)
  qed
  then obtain r where r: "fst (snd (fetch_try cfg w)) = Rejected r" by blast
  with fetch_try_rejection[OF assms(3)] have "is_Error r" by simp
  then have "read_message r = None" by (simp add: is_Error_message)
  from fetch_catches[OF assms(1) r this fetch_try_disconnect[OF assms(2)]] show ?thesis .
qed

text \<open>
  A refused connection is reported on the error channel twice: where it is thrown and where
  it is caught.
\<close>

lemma connection_failure_error_lines:
  assumes "\<not> DEMO_MODE cfg" and "Polymesh_connect w (RPC_ENDPOINT cfg) = Rejected e"
    and "read_message e = None"
  shows "filter is_error_line (snd (fetch cfg w)) =
           [Console Err ''Failed to connect to Polymesh:'',
            Console Err ''Error fetching Polymesh TVL:'']"
  using assms
  by (simp add: fetch_def fetch_try_def initializePolymesh_def fetch_catch_def
      fetch_finally_def fetchDemo_def displayTVLBreakdown_def displayTVLBreakdown_amounts_def
      log_error_def log_info_def)

section \<open>The claims\<close>

text \<open>
  C10. For every timestamp and every block number, the historical entry point
  \<open>tvl(timestamp, block)\<close> ignores both arguments and returns exactly what the current-state
  \<open>fetch()\<close> returns. This holds of the function \<open>tvl\<close> and of both functions the module
  exports for its chain, while the module advertises \<open>timetravel = false\<close>.
\<close>

theorem tvl_is_fetch:
  "tvl cfg w timestamp block = fetch cfg w \<and>
   adapter_tvl (snd (chain (exports cfg w))) timestamp block = fetch cfg w \<and>
   adapter_fetch (snd (chain (exports cfg w))) timestamp block = fetch cfg w \<and>
   timetravel (exports cfg w) = False"
  by (simp add: tvl_def exports_def)

theorem tvl_is_fetch_witness:
  "tvl (CONFIG default_env) failing_world (Num 1639612800) (Num 1) =
     fetch (CONFIG default_env) failing_world \<and>
   tvl (CONFIG default_env) failing_world (Num 1700000000) (Num 9000000) =
     fetch (CONFIG default_env) failing_world \<and>
   timetravel (exports (CONFIG default_env) failing_world) = False"
  using tvl_is_fetch[of "CONFIG default_env" failing_world "Num 1639612800" "Num 1"]
    tvl_is_fetch[of "CONFIG default_env" failing_world "Num 1700000000" "Num 9000000"]
  by simp

text \<open>
  C8. When the demo-mode flag is set (\<open>DEMO_MODE=true\<close> in the environment), \<open>fetch\<close> returns
  the fixed mock result that maps the chain name \<open>polymesh\<close> to 105 (350 times the fallback
  price 0.3), whatever the network does: the run is the run of \<open>fetchDemo\<close>, and every effect
  of it is a console line, so nothing is connected, queried or fetched.
\<close>

theorem demo_mode_fetch:
  assumes "env_DEMO_MODE e = Some ''true''"
  shows "fetch (CONFIG e) w = fetchDemo (CONFIG e) \<and>
         fst (fetch (CONFIG e) w) = Resolved [''polymesh'' \<mapsto> Num 105] \<and>
         list_all is_console (snd (fetch (CONFIG e) w))"
proof -
  have demo: "DEMO_MODE (CONFIG e)" using assms by (simp add: CONFIG_def)
  have run: "fetch (CONFIG e) w = fetchDemo (CONFIG e)" by (simp add: fetch_def demo)
  have res: "fst (fetchDemo (CONFIG e)) = Resolved [''polymesh'' \<mapsto> Num 105]"
    unfolding fetchDemo_fst by (simp add: CONFIG_def mock_tvl_usd)
  have log: "list_all is_console (snd (fetchDemo (CONFIG e)))"
    by (simp add: fetchDemo_def displayTVLBreakdown_def displayTVLBreakdown_amounts_def
        log_info_def)
  from run res log show ?thesis by simp
qed

theorem demo_mode_fetch_witness:
  "env_DEMO_MODE demo_env = Some ''true'' \<and>
   fst (fetch (CONFIG demo_env) offline_world) = Resolved [''polymesh'' \<mapsto> Num 105] \<and>
   fst (fetch (CONFIG demo_env) hanging_world) = Resolved [''polymesh'' \<mapsto> Num 105] \<and>
   fst (fetch (CONFIG demo_env) failing_world) = Resolved [''polymesh'' \<mapsto> Num 105] \<and>
   list_all is_console (snd (fetch (CONFIG demo_env) failing_world))"
proof -
  have h: "env_DEMO_MODE demo_env = Some ''true''" by (simp add: demo_env_def)
  show ?thesis
    using h demo_mode_fetch[OF h, of offline_world] demo_mode_fetch[OF h, of hanging_world]
      demo_mode_fetch[OF h, of failing_world]
    by blast
qed

text \<open>
  C7. If no treasury account is configured (the constant is \<open>null\<close>), the treasury-balance
  query returns exactly 0 and never calls the account lookup; its only effect is one
  info-level console line, so the state is not treated as an error. Seen from
  \<open>queryChainData\<close>: no account lookup happens in the whole batch, and a returned ChainData has
  \<open>treasuryBalance = 0\<close>.
\<close>

theorem treasury_unconfigured:
  assumes "TREASURY_ACCOUNT cfg = None"
  shows "queryTreasuryBalance cfg api =
           (Resolved 0, log_info cfg ''Treasury account not configured, skipping'') \<and>
         (\<forall>a. Account_called a \<notin> set (snd (queryTreasuryBalance cfg api))) \<and>
         (\<forall>a. Account_called a \<notin> set (snd (queryChainData cfg p))) \<and>
         (\<forall>cd. fst (queryChainData cfg p) = Resolved cd \<longrightarrow> treasuryBalance cd = 0)"
proof -
  have q: "queryTreasuryBalance cfg api' =
      (Resolved 0, log_info cfg ''Treasury account not configured, skipping'')" for api'
    using assms by (simp add: queryTreasuryBalance_def)
  have t: "Account_called a \<notin> set (snd (queryTreasuryBalance cfg api'))" for a api'
    by (simp add: q log_info_def)
  have c: "Account_called a \<notin> set (snd (queryChainData cfg p))" for a
    by (simp add: queryChainData_snd no_account_call_in_staking t)
  have z: "treasuryBalance cd = 0" if "fst (queryChainData cfg p) = Resolved cd" for cd
    using queryChainData_Resolved_imp[OF that] by (simp add: q)
  from q t c z show ?thesis by blast
qed

theorem treasury_unconfigured_witness:
  "TREASURY_ACCOUNT (CONFIG default_env) = None \<and>
   queryTreasuryBalance (CONFIG default_env) healthy_api =
     (Resolved 0, [Console Info ''Treasury account not configured, skipping'']) \<and>
   fst (queryChainData (CONFIG default_env) healthy_polymesh) =
     Resolved \<lparr> totalIssuance = 1000000000, totalStaked = 300000000, treasuryBalance = 0 \<rparr>"
proof -
  have h: "TREASURY_ACCOUNT (CONFIG default_env) = None" by (simp add: CONFIG_def)
  have silent: "\<not> SILENT_MODE (CONFIG default_env)" by (simp add: CONFIG_def default_env_def)
  have "queryTreasuryBalance (CONFIG default_env) healthy_api =
     (Resolved 0, [Console Info ''Treasury account not configured, skipping''])"
    using treasury_unconfigured[OF h, of healthy_api] silent by (simp add: log_info_def)
  moreover have "fst (queryChainData (CONFIG default_env) healthy_polymesh) =
     Resolved \<lparr> totalIssuance = 1000000000, totalStaked = 300000000, treasuryBalance = 0 \<rparr>"
    by (rule queryChainData_resolved)
      (simp_all add: queryTotalStaked_fst queryTreasuryBalance_fst healthy_polymesh_def
        healthy_api_def h)
  ultimately show ?thesis using h by simp
qed




text \<open>
  C5, as the code has it. \<open>getPolyxPrice\<close> returns a Number whenever the price service
  answers with a Number, answers without the field, or fails with an error whose message
  can be printed (as that of an ordinary Error object can). A Number greater than 0 is returned as
  the live price. The configured fallback price is returned when the call fails with such an
  error (network failure, timeout, malformed response), when the field is missing, and when
  the value is falsy or not greater than 0. A value of another type that is truthy and
  compares greater than 0 is returned as it is.
\<close>

theorem getPolyxPrice_live_or_fallback:
  "((axios_get w = Resolved None \<or> (\<exists>n. axios_get w = Resolved (Some (Number_value n))) \<or>
     (\<exists>e. axios_get w = Rejected e \<and> print_message e = None)) \<longrightarrow>
      (\<exists>v. fst (getPolyxPrice cfg w) = Resolved (Number_value v))) \<and>
   (\<forall>n. axios_get w = Resolved (Some (Number_value n)) \<and> js_gt n (Num 0) \<longrightarrow>
      fst (getPolyxPrice cfg w) = Resolved (Number_value n)) \<and>
   (\<forall>n. axios_get w = Resolved (Some (Number_value n)) \<and> \<not> js_gt n (Num 0) \<longrightarrow>
      fst (getPolyxPrice cfg w) = Resolved (Number_value (POLYX_FALLBACK_PRICE cfg))) \<and>
   (axios_get w = Resolved None \<longrightarrow>
      fst (getPolyxPrice cfg w) = Resolved (Number_value (POLYX_FALLBACK_PRICE cfg))) \<and>
   (\<forall>e. axios_get w = Rejected e \<and> print_message e = None \<longrightarrow>
      fst (getPolyxPrice cfg w) = Resolved (Number_value (POLYX_FALLBACK_PRICE cfg))) \<and>
   (\<forall>usd. axios_get w = Resolved (Some usd) \<and>
      (\<not> ToBoolean usd \<or> greater_than_zero usd = Inr False) \<longrightarrow>
      fst (getPolyxPrice cfg w) = Resolved (Number_value (POLYX_FALLBACK_PRICE cfg))) \<and>
   (\<forall>usd. axios_get w = Resolved (Some usd) \<and> ToBoolean usd \<and>
      greater_than_zero usd = Inr True \<and> print_value usd = None \<longrightarrow>
      fst (getPolyxPrice cfg w) = Resolved usd)"
proof -
  have number: "fst (getPolyxPrice cfg w) =
      Resolved (Number_value (if js_gt n (Num 0) then n else POLYX_FALLBACK_PRICE cfg))"
    if "axios_get w = Resolved (Some (Number_value n))" for n
    using that by (rule getPolyxPrice_Number)
  have missing: "fst (getPolyxPrice cfg w) = Resolved (Number_value (POLYX_FALLBACK_PRICE cfg))"
    if "axios_get w = Resolved None"
    using that by (simp add: getPolyxPrice_fst)
  have failed: "fst (getPolyxPrice cfg w) = Resolved (Number_value (POLYX_FALLBACK_PRICE cfg))"
    if "axios_get w = Rejected e" "print_message e = None" for e
    using that by (simp add: getPolyxPrice_fst)
  have low: "fst (getPolyxPrice cfg w) = Resolved (Number_value (POLYX_FALLBACK_PRICE cfg))"
    if "axios_get w = Resolved (Some usd)" "\<not> ToBoolean usd \<or> greater_than_zero usd = Inr False"
    for usd
    using that by (auto simp: getPolyxPrice_fst)
  have live: "fst (getPolyxPrice cfg w) = Resolved usd"
    if "axios_get w = Resolved (Some usd)" "ToBoolean usd" "greater_than_zero usd = Inr True"
      "print_value usd = None" for usd
    using that by (simp add: getPolyxPrice_fst)
  have returns: "\<exists>v. fst (getPolyxPrice cfg w) = Resolved (Number_value v)"
    if "axios_get w = Resolved None \<or> (\<exists>n. axios_get w = Resolved (Some (Number_value n))) \<or>
        (\<exists>e. axios_get w = Rejected e \<and> print_message e = None)"
    using that number missing failed by blast
  have number_live: "fst (getPolyxPrice cfg w) = Resolved (Number_value n)"
    if "axios_get w = Resolved (Some (Number_value n))" "js_gt n (Num 0)" for n
    using number[OF that(1)] that(2) by simp
  have number_low:
    "fst (getPolyxPrice cfg w) = Resolved (Number_value (POLYX_FALLBACK_PRICE cfg))"
    if "axios_get w = Resolved (Some (Number_value n))" "\<not> js_gt n (Num 0)" for n
    using number[OF that(1)] that(2) by simp
  from returns number_live number_low missing failed low live show ?thesis by blast
qed

theorem getPolyxPrice_live_or_fallback_witness:
  "axios_get failing_world = Resolved (Some (Number_value (Num (1 / 4)))) \<and>
   js_gt (Num (1 / 4)) (Num 0) \<and>
   fst (getPolyxPrice (CONFIG default_env) failing_world) =
     Resolved (Number_value (Num (1 / 4))) \<and>
   axios_get offline_world = Rejected (Error ''timeout of 5000ms exceeded'') \<and>
   print_message (Error ''timeout of 5000ms exceeded'') = None \<and>
   fst (getPolyxPrice (CONFIG default_env) offline_world) =
     Resolved (Number_value (POLYX_FALLBACK_PRICE (CONFIG default_env))) \<and>
   \<not> js_gt (Num (- 2)) (Num 0) \<and>
   fst (getPolyxPrice (CONFIG default_env)
          (offline_world \<lparr> axios_get := Resolved (Some (Number_value (Num (- 2)))) \<rparr>)) =
     Resolved (Number_value (POLYX_FALLBACK_PRICE (CONFIG default_env))) \<and>
   fst (getPolyxPrice (CONFIG default_env) (offline_world \<lparr> axios_get := Resolved None \<rparr>)) =
     Resolved (Number_value (POLYX_FALLBACK_PRICE (CONFIG default_env))) \<and>
   ToBoolean js_true \<and> greater_than_zero js_true = Inr True \<and> print_value js_true = None \<and>
   fst (getPolyxPrice (CONFIG default_env) true_price_world) = Resolved js_true"
proof -
  have a: "axios_get failing_world = Resolved (Some (Number_value (Num (1 / 4))))"
    by (simp add: failing_world_def)
  have b: "axios_get offline_world = Rejected (Error ''timeout of 5000ms exceeded'')"
    by (simp add: offline_world_def)
  have c: "axios_get (offline_world \<lparr> axios_get := Resolved (Some (Number_value (Num (- 2)))) \<rparr>) =
      Resolved (Some (Number_value (Num (- 2))))"
    by simp
  have d: "axios_get (offline_world \<lparr> axios_get := Resolved None \<rparr>) = Resolved None"
    by simp
  have t: "axios_get true_price_world = Resolved (Some js_true)"
    by (simp add: true_price_world_def)
  have g: "js_gt (Num (1 / 4)) (Num 0)" and n: "\<not> js_gt (Num (- 2)) (Num 0)" by simp_all
  have m: "print_message (Error ''timeout of 5000ms exceeded'') = None" by simp
  have j: "ToBoolean js_true" "greater_than_zero js_true = Inr True" "print_value js_true = None"
    by (simp_all add: js_true_def)
  have live: "fst (getPolyxPrice (CONFIG default_env) failing_world) =
      Resolved (Number_value (Num (1 / 4)))"
    using a g getPolyxPrice_live_or_fallback[of failing_world "CONFIG default_env"] by blast
  have failed: "fst (getPolyxPrice (CONFIG default_env) offline_world) =
      Resolved (Number_value (POLYX_FALLBACK_PRICE (CONFIG default_env)))"
    using b m getPolyxPrice_live_or_fallback[of offline_world "CONFIG default_env"] by blast
  have low: "fst (getPolyxPrice (CONFIG default_env)
          (offline_world \<lparr> axios_get := Resolved (Some (Number_value (Num (- 2)))) \<rparr>)) =
      Resolved (Number_value (POLYX_FALLBACK_PRICE (CONFIG default_env)))"
    using c n getPolyxPrice_live_or_fallback[of
        "offline_world \<lparr> axios_get := Resolved (Some (Number_value (Num (- 2)))) \<rparr>"
        "CONFIG default_env"]
    by blast
  have missing:
    "fst (getPolyxPrice (CONFIG default_env) (offline_world \<lparr> axios_get := Resolved None \<rparr>)) =
      Resolved (Number_value (POLYX_FALLBACK_PRICE (CONFIG default_env)))"
    using d getPolyxPrice_live_or_fallback[of "offline_world \<lparr> axios_get := Resolved None \<rparr>"
        "CONFIG default_env"]
    by blast
  have other: "fst (getPolyxPrice (CONFIG default_env) true_price_world) = Resolved js_true"
    using t j getPolyxPrice_live_or_fallback[of true_price_world "CONFIG default_env"] by blast
  from a b g n m j live failed low missing other show ?thesis by (intro conjI)
qed

text \<open>
  C5, as stated, fails in two ways. When the price service rejects with \<open>null\<close>, the
  \<open>catch\<close> block throws while it prints the message, and \<open>getPolyxPrice\<close> is rejected with a
  TypeError. When the service reports the price \<open>true\<close>, a malformed response,
  \<open>getPolyxPrice\<close> returns \<open>true\<close> and not the fallback.
\<close>

theorem getPolyxPrice_can_fail:
  "axios_get null_price_world = Rejected Nullish \<and>
   fst (getPolyxPrice (CONFIG default_env) null_price_world) = Rejected type_error \<and>
   axios_get true_price_world = Resolved (Some js_true) \<and>
   fst (getPolyxPrice (CONFIG default_env) true_price_world) = Resolved js_true \<and>
   js_true \<noteq> Number_value (POLYX_FALLBACK_PRICE (CONFIG default_env))"
  by (simp add: getPolyxPrice_fst null_price_world_def true_price_world_def js_true_def)

text \<open>
  C1, as the code has it. In demo mode \<open>fetch\<close> is the demo run. Whenever every awaited call
  settles and every value thrown at the program (by the chain client, the price service,
  the operations on the reported price and the chain queries) is an ordinary Error object,
  one whose message reads and prints, \<open>fetch\<close>
  returns an AdapterResult and does not throw; if then, outside demo mode, the connection
  fails or the unguarded total-issuance query fails, the error is caught and the result is
  the result of the demo run. More generally, outside demo mode and provided the connection,
  if there is one, answers the \<open>disconnect\<close>: when anything in the \<open>try\<close> block throws a value
  whose message can be read, the result is the result of the demo run, and when the \<open>try\<close>
  block completes, \<open>fetch\<close> returns its AdapterResult. If every call settles, \<open>fetch\<close> settles.
  The demo run returns the mock result.
\<close>

theorem fetch_falls_back_to_demo:
  "(DEMO_MODE cfg \<longrightarrow> fetch cfg w = fetchDemo cfg) \<and>
   (calls_settle cfg w \<and> list_all is_Error (thrown_values cfg w) \<longrightarrow>
      (\<exists>result. fst (fetch cfg w) = Resolved result)) \<and>
   (\<not> DEMO_MODE cfg \<and> calls_settle cfg w \<and> list_all is_Error (thrown_values cfg w) \<and>
      ((\<exists>e. Polymesh_connect w (RPC_ENDPOINT cfg) = Rejected e) \<or>
       (\<exists>p e. Polymesh_connect w (RPC_ENDPOINT cfg) = Resolved p \<and>
          balances_totalIssuance (polkadotApi p) = Rejected e)) \<longrightarrow>
      fst (fetch cfg w) = fst (fetchDemo cfg)) \<and>
   (\<forall>e. \<not> DEMO_MODE cfg \<and> fst (snd (fetch_try cfg w)) = Rejected e \<and>
      read_message e = None \<and>
      (\<forall>p. fst (fetch_try cfg w) = Some p \<longrightarrow> settled (disconnect p)) \<longrightarrow>
      fst (fetch cfg w) = fst (fetchDemo cfg)) \<and>
   (\<forall>result. \<not> DEMO_MODE cfg \<and> fst (snd (fetch_try cfg w)) = Resolved result \<and>
      (\<forall>p. fst (fetch_try cfg w) = Some p \<longrightarrow> settled (disconnect p)) \<longrightarrow>
      fst (fetch cfg w) = Resolved result) \<and>
   (calls_settle cfg w \<longrightarrow> fst (fetch cfg w) \<noteq> Pending) \<and>
   fst (fetchDemo cfg) =
     Resolved [CHAIN_NAME cfg \<mapsto> js_mul (Num 350) (POLYX_FALLBACK_PRICE cfg)]"
proof -
  have demo: "fetch cfg w = fetchDemo cfg" if "DEMO_MODE cfg"
    using that by (simp add: fetch_def)
  have resolves: "\<exists>result. fst (fetch cfg w) = Resolved result"
    if "calls_settle cfg w" "list_all is_Error (thrown_values cfg w)"
    using that by (rule fetch_resolves)
  have unguarded: "fst (fetch cfg w) = fst (fetchDemo cfg)"
    if "\<not> DEMO_MODE cfg" "calls_settle cfg w" "list_all is_Error (thrown_values cfg w)"
      "(\<exists>e. Polymesh_connect w (RPC_ENDPOINT cfg) = Rejected e) \<or>
       (\<exists>p e. Polymesh_connect w (RPC_ENDPOINT cfg) = Resolved p \<and>
          balances_totalIssuance (polkadotApi p) = Rejected e)"
    using that by (rule fetch_unguarded_failure)
  have catches: "fst (fetch cfg w) = fst (fetchDemo cfg)"
    if "\<not> DEMO_MODE cfg" "fst (snd (fetch_try cfg w)) = Rejected e" "read_message e = None"
      "\<forall>p. fst (fetch_try cfg w) = Some p \<longrightarrow> settled (disconnect p)" for e
    using that by (rule fetch_catches)
  have returns: "fst (fetch cfg w) = Resolved result"
    if "\<not> DEMO_MODE cfg" "fst (snd (fetch_try cfg w)) = Resolved result"
      "\<forall>p. fst (fetch_try cfg w) = Some p \<longrightarrow> settled (disconnect p)" for result
    using that by (rule fetch_returns)
  have settles: "fst (fetch cfg w) \<noteq> Pending" if "calls_settle cfg w"
    using that by (rule fetch_settles)
  note mock = fetchDemo_fst[of cfg]
  show ?thesis
  proof (intro conjI allI impI)
    show "fetch cfg w = fetchDemo cfg" if "DEMO_MODE cfg" using that by (rule demo)
    show "\<exists>result. fst (fetch cfg w) = Resolved result"
      if "calls_settle cfg w \<and> list_all is_Error (thrown_values cfg w)"
      using that resolves by blast
    show "fst (fetch cfg w) = fst (fetchDemo cfg)"
      if "\<not> DEMO_MODE cfg \<and> calls_settle cfg w \<and> list_all is_Error (thrown_values cfg w) \<and>
        ((\<exists>e. Polymesh_connect w (RPC_ENDPOINT cfg) = Rejected e) \<or>
         (\<exists>p e. Polymesh_connect w (RPC_ENDPOINT cfg) = Resolved p \<and>
            balances_totalIssuance (polkadotApi p) = Rejected e))"
      using that unguarded by blast
    show "fst (fetch cfg w) = fst (fetchDemo cfg)"
      if "\<not> DEMO_MODE cfg \<and> fst (snd (fetch_try cfg w)) = Rejected e \<and>
        read_message e = None \<and>
        (\<forall>p. fst (fetch_try cfg w) = Some p \<longrightarrow> settled (disconnect p))" for e
      using that catches by blast
    show "fst (fetch cfg w) = Resolved result"
      if "\<not> DEMO_MODE cfg \<and> fst (snd (fetch_try cfg w)) = Resolved result \<and>
        (\<forall>p. fst (fetch_try cfg w) = Some p \<longrightarrow> settled (disconnect p))" for result
      using that returns by blast
    show "fst (fetch cfg w) \<noteq> Pending" if "calls_settle cfg w" using that by (rule settles)
    show "fst (fetchDemo cfg) =
      Resolved [CHAIN_NAME cfg \<mapsto> js_mul (Num 350) (POLYX_FALLBACK_PRICE cfg)]"
      by (rule mock)
  qed
qed

theorem fetch_falls_back_to_demo_witness:
  "\<not> DEMO_MODE (CONFIG default_env) \<and>
   calls_settle (CONFIG default_env) offline_world \<and>
   list_all is_Error (thrown_values (CONFIG default_env) offline_world) \<and>
   Polymesh_connect offline_world (RPC_ENDPOINT (CONFIG default_env)) =
     Rejected (Error ''connection refused'') \<and>
   fst (fetch (CONFIG default_env) offline_world) = fst (fetchDemo (CONFIG default_env)) \<and>
   calls_settle (CONFIG default_env) failing_world \<and>
   list_all is_Error (thrown_values (CONFIG default_env) failing_world) \<and>
   Polymesh_connect failing_world (RPC_ENDPOINT (CONFIG default_env)) =
     Resolved failing_polymesh \<and>
   balances_totalIssuance (polkadotApi failing_polymesh) =
     Rejected (Error ''issuance lookup failed'') \<and>
   fst (fetch (CONFIG default_env) failing_world) = fst (fetchDemo (CONFIG default_env)) \<and>
   fst (fetch (CONFIG default_env) failing_world) \<noteq> Pending \<and>
   fst (fetchDemo (CONFIG default_env)) = Resolved [''polymesh'' \<mapsto> Num 105] \<and>
   calls_settle (CONFIG default_env) healthy_world \<and>
   list_all is_Error (thrown_values (CONFIG default_env) healthy_world) \<and>
   fst (snd (fetch_try (CONFIG default_env) healthy_world)) =
     Resolved [''polymesh'' \<mapsto> Num 75] \<and>
   fst (fetch (CONFIG default_env) healthy_world) = Resolved [''polymesh'' \<mapsto> Num 75] \<and>
   fst (snd (fetch_try (CONFIG default_env) offline_world)) =
     Rejected (Error ''connection refused'') \<and>
   read_message (Error ''connection refused'') = None \<and>
   DEMO_MODE (CONFIG demo_env) \<and>
   fetch (CONFIG demo_env) hanging_world = fetchDemo (CONFIG demo_env)"
proof -
  have d: "\<not> DEMO_MODE (CONFIG default_env)" by (simp add: CONFIG_def default_env_def)
  have a: "Polymesh_connect offline_world (RPC_ENDPOINT (CONFIG default_env)) =
      Rejected (Error ''connection refused'')"
    by (simp add: offline_world_def)
  have ra: "read_message (Error ''connection refused'') = None" by simp
  have so: "calls_settle (CONFIG default_env) offline_world"
    by (simp add: calls_settle_def offline_world_def)
  have eo: "list_all is_Error (thrown_values (CONFIG default_env) offline_world)"
    by (simp add: thrown_values_def offline_world_def)
  have b: "Polymesh_connect failing_world (RPC_ENDPOINT (CONFIG default_env)) =
      Resolved failing_polymesh"
    by (simp add: failing_world_def)
  have c: "balances_totalIssuance (polkadotApi failing_polymesh) =
      Rejected (Error ''issuance lookup failed'')"
    by (simp add: failing_polymesh_def failing_api_def)
  have sf: "calls_settle (CONFIG default_env) failing_world"
    by (simp add: calls_settle_def failing_world_def failing_polymesh_def failing_api_def
        healthy_api_def staking_settles_def treasury_settles_def CONFIG_def)
  have ef: "list_all is_Error (thrown_values (CONFIG default_env) failing_world)"
    by (simp add: thrown_values_def price_thrown_def staking_thrown_def treasury_thrown_def
        failing_world_def failing_polymesh_def failing_api_def healthy_api_def CONFIG_def)
  have sh: "calls_settle (CONFIG default_env) healthy_world"
    by (simp add: calls_settle_def healthy_world_def healthy_polymesh_def healthy_api_def
        staking_settles_def treasury_settles_def CONFIG_def)
  have eh: "list_all is_Error (thrown_values (CONFIG default_env) healthy_world)"
    by (simp add: thrown_values_def price_thrown_def staking_thrown_def treasury_thrown_def
        healthy_world_def healthy_polymesh_def healthy_api_def CONFIG_def)
  have offline:
    "fst (fetch (CONFIG default_env) offline_world) = fst (fetchDemo (CONFIG default_env))"
    using d so eo a fetch_falls_back_to_demo[of "CONFIG default_env" offline_world] by blast
  have failing:
    "fst (fetch (CONFIG default_env) failing_world) = fst (fetchDemo (CONFIG default_env))"
    using d sf ef b c fetch_falls_back_to_demo[of "CONFIG default_env" failing_world] by blast
  have settled: "fst (fetch (CONFIG default_env) failing_world) \<noteq> Pending"
    using sf fetch_falls_back_to_demo[of "CONFIG default_env" failing_world] by blast
  have "fst (fetchDemo (CONFIG default_env)) =
      Resolved [CHAIN_NAME (CONFIG default_env) \<mapsto>
        js_mul (Num 350) (POLYX_FALLBACK_PRICE (CONFIG default_env))]"
    using fetch_falls_back_to_demo[of "CONFIG default_env" offline_world] by blast
  then have m: "fst (fetchDemo (CONFIG default_env)) = Resolved [''polymesh'' \<mapsto> Num 105]"
    by (simp add: CONFIG_def mock_tvl_usd)
  have hs: "\<forall>p. fst (fetch_try (CONFIG default_env) healthy_world) = Some p \<longrightarrow>
      settled (disconnect p)"
    by (simp add: fetch_try_connection healthy_world_def healthy_polymesh_def)
  have healthy:
    "fst (fetch (CONFIG default_env) healthy_world) = Resolved [''polymesh'' \<mapsto> Num 75]"
    using d healthy_run hs fetch_falls_back_to_demo[of "CONFIG default_env" healthy_world]
    by blast
  have tr: "fst (snd (fetch_try (CONFIG default_env) offline_world)) =
      Rejected (Error ''connection refused'')"
    using fetch_try_connect_rejected[OF a ra] by simp
  have dm: "DEMO_MODE (CONFIG demo_env)" by (simp add: CONFIG_def demo_env_def)
  have demo: "fetch (CONFIG demo_env) hanging_world = fetchDemo (CONFIG demo_env)"
    using dm fetch_falls_back_to_demo[of "CONFIG demo_env" hanging_world] by blast
  from d so eo a offline sf ef b c failing settled m sh eh healthy_run healthy tr ra dm demo
  show ?thesis by (intro conjI)
qed

text \<open>
  C1, as stated, fails in two ways. When the total-issuance query rejects with \<open>null\<close>, the
  \<open>catch\<close> block of \<open>fetch\<close> throws while it reads the message of the caught value, and \<open>fetch\<close>
  is rejected with a TypeError. When the connection is never answered, \<open>fetch\<close> never
  returns.
\<close>

theorem fetch_can_reject:
  "\<not> DEMO_MODE (CONFIG default_env) \<and>
   Polymesh_connect null_issuance_world (RPC_ENDPOINT (CONFIG default_env)) =
     Resolved null_issuance_polymesh \<and>
   balances_totalIssuance (polkadotApi null_issuance_polymesh) = Rejected Nullish \<and>
   fst (fetch (CONFIG default_env) null_issuance_world) = Rejected type_error \<and>
   Polymesh_connect hanging_world (RPC_ENDPOINT (CONFIG default_env)) = Pending \<and>
   fst (fetch (CONFIG default_env) hanging_world) = Pending"
proof -
  have d: "\<not> DEMO_MODE (CONFIG default_env)" by (simp add: CONFIG_def default_env_def)
  have b: "Polymesh_connect null_issuance_world (RPC_ENDPOINT (CONFIG default_env)) =
      Resolved null_issuance_polymesh"
    by (simp add: null_issuance_world_def)
  have c: "balances_totalIssuance (polkadotApi null_issuance_polymesh) = Rejected Nullish"
    by (simp add: null_issuance_polymesh_def null_issuance_api_def)
  have price: "rejection (fst (getPolyxPrice (CONFIG default_env) null_issuance_world)) = []"
    by (simp add: getPolyxPrice_fst null_issuance_world_def)
  have staked:
    "rejection (fst (queryTotalStaked (CONFIG default_env)
       (polkadotApi null_issuance_polymesh))) = []"
    by (simp add: queryTotalStaked_fst null_issuance_polymesh_def null_issuance_api_def
        healthy_api_def)
  have treasury:
    "rejection (fst (queryTreasuryBalance (CONFIG default_env)
       (polkadotApi null_issuance_polymesh))) = []"
    by (simp add: queryTreasuryBalance_fst CONFIG_def)
  have r: "fst (snd (fetch_try (CONFIG default_env) null_issuance_world)) = Rejected Nullish"
    using b c price staked treasury by (rule fetch_try_issuance_rejected)
  have s: "\<forall>q. fst (fetch_try (CONFIG default_env) null_issuance_world) = Some q \<longrightarrow>
      settled (disconnect q)"
    using b by (simp add: fetch_try_connection null_issuance_polymesh_def)
  have n: "fst (fetch (CONFIG default_env) null_issuance_world) = Rejected type_error"
    using d r _ s by (rule fetch_rejects) simp
  have h: "Polymesh_connect hanging_world (RPC_ENDPOINT (CONFIG default_env)) = Pending"
    by (simp add: hanging_world_def)
  have p: "fst (fetch (CONFIG default_env) hanging_world) = Pending"
    using d fetch_try_connect_pending[OF h] by (rule fetch_pending)
  from d b c n h p show ?thesis by (intro conjI)
qed

text \<open>
  C2, as the code has it. If the staking sub-query or the treasury sub-query throws an error
  whose message can be printed (as that of an ordinary Error object can), \<open>queryChainData\<close> still
  returns a complete ChainData with the failing field set to 0, provided the total-issuance
  query answers and the calls of both sub-queries settle; the total issuance it reports is
  that answer. If the total-issuance query throws, \<open>queryChainData\<close> is rejected.
\<close>

theorem guarded_queries_degrade_to_zero:
  "(\<forall>v. balances_totalIssuance (polkadotApi p) = Resolved v \<and>
      staking_settles (polkadotApi p) \<and> treasury_settles cfg (polkadotApi p) \<and>
      (\<forall>e. staking_thrown (polkadotApi p) = Some e \<longrightarrow> print_message e = None) \<and>
      (\<forall>e. treasury_thrown cfg (polkadotApi p) = Some e \<longrightarrow> print_message e = None) \<longrightarrow>
      (\<exists>cd. fst (queryChainData cfg p) = Resolved cd \<and> totalIssuance cd = v \<and>
         (staking_thrown (polkadotApi p) \<noteq> None \<longrightarrow> totalStaked cd = 0) \<and>
         (treasury_thrown cfg (polkadotApi p) \<noteq> None \<longrightarrow> treasuryBalance cd = 0))) \<and>
   (\<forall>e. balances_totalIssuance (polkadotApi p) = Rejected e \<longrightarrow>
      (\<exists>r. fst (queryChainData cfg p) = Rejected r))"
proof -
  have degrade: "\<exists>cd. fst (queryChainData cfg p) = Resolved cd \<and> totalIssuance cd = v \<and>
         (staking_thrown (polkadotApi p) \<noteq> None \<longrightarrow> totalStaked cd = 0) \<and>
         (treasury_thrown cfg (polkadotApi p) \<noteq> None \<longrightarrow> treasuryBalance cd = 0)"
    if i: "balances_totalIssuance (polkadotApi p) = Resolved v"
      and ss: "staking_settles (polkadotApi p)"
      and ts: "treasury_settles cfg (polkadotApi p)"
      and sp: "\<forall>e. staking_thrown (polkadotApi p) = Some e \<longrightarrow> print_message e = None"
      and tp: "\<forall>e. treasury_thrown cfg (polkadotApi p) = Some e \<longrightarrow> print_message e = None"
    for v
  proof -
    from queryTotalStaked_returns[OF ss sp, of cfg]
    obtain s where s: "fst (queryTotalStaked cfg (polkadotApi p)) = Resolved s" by blast
    from queryTreasuryBalance_returns[OF ts tp]
    obtain t where t: "fst (queryTreasuryBalance cfg (polkadotApi p)) = Resolved t" by blast
    have cd: "fst (queryChainData cfg p) =
        Resolved \<lparr> totalIssuance = v, totalStaked = s, treasuryBalance = t \<rparr>"
      using i s t by (rule queryChainData_resolved)
    have "s = 0" if "staking_thrown (polkadotApi p) \<noteq> None"
    proof -
      from that obtain e where e: "staking_thrown (polkadotApi p) = Some e" by blast
      with sp have "print_message e = None" by blast
      from queryTotalStaked_throws_zero[OF e this, of cfg] s show ?thesis by simp
    qed
    moreover have "t = 0" if "treasury_thrown cfg (polkadotApi p) \<noteq> None"
    proof -
      from that obtain e where e: "treasury_thrown cfg (polkadotApi p) = Some e" by blast
      with tp have "print_message e = None" by blast
      from queryTreasuryBalance_throws_zero[OF e this] t show ?thesis by simp
    qed
    ultimately show ?thesis using cd by simp
  qed
  have reject: "\<exists>r. fst (queryChainData cfg p) = Rejected r"
    if "balances_totalIssuance (polkadotApi p) = Rejected e" for e
    using queryChainData_rejects[OF that, of cfg] by blast
  from degrade reject show ?thesis by blast
qed

theorem guarded_queries_degrade_to_zero_witness:
  "balances_totalIssuance (polkadotApi degraded_polymesh) = Resolved 1000000000 \<and>
   staking_settles (polkadotApi degraded_polymesh) \<and>
   treasury_settles treasury_config (polkadotApi degraded_polymesh) \<and>
   staking_thrown (polkadotApi degraded_polymesh) = Some (Error ''era lookup failed'') \<and>
   treasury_thrown treasury_config (polkadotApi degraded_polymesh) =
     Some (Error ''account lookup failed'') \<and>
   print_message (Error ''era lookup failed'') = None \<and>
   print_message (Error ''account lookup failed'') = None \<and>
   (\<exists>cd. fst (queryChainData treasury_config degraded_polymesh) = Resolved cd \<and>
      totalIssuance cd = 1000000000 \<and> totalStaked cd = 0 \<and> treasuryBalance cd = 0)"
proof -
  have a: "balances_totalIssuance (polkadotApi degraded_polymesh) = Resolved 1000000000"
    by (simp add: degraded_polymesh_def degraded_api_def)
  have ss: "staking_settles (polkadotApi degraded_polymesh)"
    by (simp add: staking_settles_def degraded_polymesh_def degraded_api_def)
  have ts: "treasury_settles treasury_config (polkadotApi degraded_polymesh)"
    by (simp add: treasury_settles_def treasury_config_def degraded_polymesh_def
        degraded_api_def)
  have b: "staking_thrown (polkadotApi degraded_polymesh) = Some (Error ''era lookup failed'')"
    by (simp add: staking_thrown_def degraded_polymesh_def degraded_api_def)
  have c: "treasury_thrown treasury_config (polkadotApi degraded_polymesh) =
      Some (Error ''account lookup failed'')"
    by (simp add: treasury_thrown_def treasury_config_def degraded_polymesh_def
        degraded_api_def)
  have m: "print_message (Error ''era lookup failed'') = None"
    "print_message (Error ''account lookup failed'') = None"
    by simp_all
  have sp: "\<forall>e. staking_thrown (polkadotApi degraded_polymesh) = Some e \<longrightarrow>
      print_message e = None"
    using b by simp
  have tp: "\<forall>e. treasury_thrown treasury_config (polkadotApi degraded_polymesh) = Some e \<longrightarrow>
      print_message e = None"
    using c by simp
  have sn: "staking_thrown (polkadotApi degraded_polymesh) \<noteq> None" using b by simp
  have tn: "treasury_thrown treasury_config (polkadotApi degraded_polymesh) \<noteq> None"
    using c by simp
  have "\<exists>cd. fst (queryChainData treasury_config degraded_polymesh) = Resolved cd \<and>
      totalIssuance cd = 1000000000 \<and> totalStaked cd = 0 \<and> treasuryBalance cd = 0"
    using a ss ts sp tp sn tn
      guarded_queries_degrade_to_zero[of degraded_polymesh treasury_config]
    by blast
  with a ss ts b c m show ?thesis by (intro conjI)
qed

text \<open>
  C2, as stated, fails in three ways. On a chain whose total-issuance query throws,
  \<open>queryChainData\<close> is rejected with that error. On a chain whose total-issuance query answers
  and whose active era rejects with \<open>null\<close>, the \<open>catch\<close> block of the staking query throws
  while it prints the message, and \<open>queryChainData\<close> is rejected with a TypeError. On a chain
  whose active era never answers, \<open>queryChainData\<close> never returns.
\<close>

theorem total_issuance_not_degraded:
  "fst (queryChainData (CONFIG default_env) failing_polymesh) =
     Rejected (Error ''issuance lookup failed'') \<and>
   balances_totalIssuance (polkadotApi null_staking_polymesh) = Resolved 1000000000 \<and>
   fst (queryChainData (CONFIG default_env) null_staking_polymesh) = Rejected type_error \<and>
   balances_totalIssuance (polkadotApi hanging_staking_polymesh) = Resolved 1000000000 \<and>
   fst (queryChainData (CONFIG default_env) hanging_staking_polymesh) = Pending"
  by (simp add: queryChainData_fst Promise_all3_def first_rejected_def queryTotalStaked_fst
      queryTreasuryBalance_fst failing_polymesh_def failing_api_def null_staking_polymesh_def
      null_staking_api_def hanging_staking_polymesh_def hanging_staking_api_def
      healthy_api_def CONFIG_def)

text \<open>
  C6. With 6 decimals, \<open>calculateTVL\<close> applied to the ChainData with total issuance
  1000000000, total staked 300000000 and treasury balance 50000000, and to the price 0.3,
  yields a breakdown with \<open>tvlPolyx = 350\<close> and \<open>tvlUsd = 105\<close> (and the three amounts 1000,
  300 and 50), each exactly, in binary64.
\<close>

theorem scenario_one_breakdown:
  assumes "POLYX_DECIMALS cfg = 6"
  shows "calculateTVL cfg
           \<lparr> totalIssuance = 1000000000, totalStaked = 300000000, treasuryBalance = 50000000 \<rparr>
           (round_double (3 / 10)) =
         \<lparr> totalIssuance = Num 1000, totalStaked = Num 300, treasuryBalance = Num 50,
           tvlPolyx = Num 350, tvlUsd = Num 105, polyxPrice = round_double (3 / 10) \<rparr>"
proof -
  have "toPolyx cfg 1000000000 = Num 1000" using toPolyx_whole[OF assms, of 1000] by simp
  moreover have "toPolyx cfg 300000000 = Num 300" using toPolyx_whole[OF assms, of 300] by simp
  moreover have "toPolyx cfg 50000000 = Num 50" using toPolyx_whole[OF assms, of 50] by simp
  moreover have "toPolyx cfg 350000000 = Num 350" using toPolyx_whole[OF assms, of 350] by simp
  ultimately show ?thesis by (simp add: calculateTVL_def Let_def mock_tvl_usd)
qed

theorem scenario_one_breakdown_witness:
  "POLYX_DECIMALS (CONFIG default_env) = 6 \<and>
   tvlPolyx (calculateTVL (CONFIG default_env)
      \<lparr> totalIssuance = 1000000000, totalStaked = 300000000, treasuryBalance = 50000000 \<rparr>
      (round_double (3 / 10))) = Num 350 \<and>
   tvlUsd (calculateTVL (CONFIG default_env)
      \<lparr> totalIssuance = 1000000000, totalStaked = 300000000, treasuryBalance = 50000000 \<rparr>
      (round_double (3 / 10))) = Num 105"
proof -
  have h: "POLYX_DECIMALS (CONFIG default_env) = 6" by (simp add: CONFIG_def)
  show ?thesis using h scenario_one_breakdown[OF h] by simp
qed

lemma breakdown_fields_nearly_add_up:
  assumes d: "POLYX_DECIMALS cfg = 6" and s0: "0 \<le> s" and t0: "0 \<le> t"
    and hi: "of_int (s + t) < overflow_threshold - 2 ^ 970"
  shows "\<exists>n x y. toPolyx cfg (s + t) = Num n \<and> toPolyx cfg s = Num x \<and> toPolyx cfg t = Num y \<and>
           \<bar>n - (x + y)\<bar> \<le> of_int (s + t) / 10 ^ 6 * (2 * (2 / 2 ^ 53 + 1 / 2 ^ 106))"
proof -
  define eps :: rat where "eps = 2 / 2 ^ 53 + 1 / 2 ^ 106"
  have his: "of_int s < overflow_threshold - 2 ^ 970"
  proof -
    have "(of_int s :: rat) \<le> of_int (s + t)" using t0 by simp
    with hi show ?thesis by simp
  qed
  have hit: "of_int t < overflow_threshold - 2 ^ 970"
  proof -
    have "(of_int t :: rat) \<le> of_int (s + t)" using s0 by simp
    with hi show ?thesis by simp
  qed
  have st0: "0 \<le> s + t" using s0 t0 by simp
  define A :: rat where "A = of_int s / 10 ^ 6"
  define B :: rat where "B = of_int t / 10 ^ 6"
  have split: "(of_int (s + t) :: rat) / 10 ^ 6 = A + B"
    by (simp add: A_def B_def add_divide_distrib)
  from toPolyx_finite[OF d st0 hi, folded eps_def, unfolded split] obtain n
    where n: "toPolyx cfg (s + t) = Num n" and en: "\<bar>n - (A + B)\<bar> \<le> (A + B) * eps"
    by blast
  from toPolyx_finite[OF d s0 his, folded eps_def A_def] obtain x
    where x: "toPolyx cfg s = Num x" and ex: "\<bar>x - A\<bar> \<le> A * eps"
    by blast
  from toPolyx_finite[OF d t0 hit, folded eps_def B_def] obtain y
    where y: "toPolyx cfg t = Num y" and ey: "\<bar>y - B\<bar> \<le> B * eps"
    by blast
  have "\<bar>n - (x + y)\<bar> \<le> \<bar>n - (A + B)\<bar> + \<bar>x - A\<bar> + \<bar>y - B\<bar>" by linarith
  also have "\<dots> \<le> (A + B) * eps + A * eps + B * eps" using en ex ey by linarith
  also have "\<dots> = (A + B) * (2 * eps)" by (simp add: algebra_simps)
  finally have "\<bar>n - (x + y)\<bar> \<le> of_int (s + t) / 10 ^ 6 * (2 * eps)"
    by (simp only: split)
  then show ?thesis using n x y unfolding eps_def by blast
qed

text \<open>
  C4, as the code has it. For every ChainData and every price, the breakdown of
  \<open>calculateTVL\<close> has \<open>tvlPolyx\<close> equal to the conversion of the integer sum
  \<open>totalStaked + treasuryBalance\<close> (added in smallest units, then converted once) and \<open>tvlUsd\<close>
  equal to the binary64 product of \<open>tvlPolyx\<close> and the price. Total issuance is reported,
  converted, and changing it changes neither \<open>tvlPolyx\<close> nor \<open>tvlUsd\<close>. The breakdown's own
  \<open>totalStaked\<close> and \<open>treasuryBalance\<close> are converted separately, so \<open>tvlPolyx\<close> equals their
  sum only up to rounding: with 6 decimals and non-negative amounts whose sum is below
  \<open>2 ^ 1024 - 2 ^ 970\<close>, the three are finite and \<open>tvlPolyx\<close> differs from the sum of the other
  two by at most \<open>2 * (2 / 2 ^ 53 + 1 / 2 ^ 106)\<close> times the exact converted sum.
\<close>

theorem tvl_breakdown_invariant:
  "tvlPolyx (calculateTVL cfg cd price) = toPolyx cfg (totalStaked cd + treasuryBalance cd) \<and>
   tvlUsd (calculateTVL cfg cd price) = js_mul (tvlPolyx (calculateTVL cfg cd price)) price \<and>
   polyxPrice (calculateTVL cfg cd price) = price \<and>
   totalIssuance (calculateTVL cfg cd price) = toPolyx cfg (totalIssuance cd) \<and>
   totalStaked (calculateTVL cfg cd price) = toPolyx cfg (totalStaked cd) \<and>
   treasuryBalance (calculateTVL cfg cd price) = toPolyx cfg (treasuryBalance cd) \<and>
   tvlPolyx (calculateTVL cfg (cd \<lparr> totalIssuance := i \<rparr>) price) =
     tvlPolyx (calculateTVL cfg cd price) \<and>
   tvlUsd (calculateTVL cfg (cd \<lparr> totalIssuance := i \<rparr>) price) =
     tvlUsd (calculateTVL cfg cd price) \<and>
   (POLYX_DECIMALS cfg = 6 \<and> 0 \<le> totalStaked cd \<and> 0 \<le> treasuryBalance cd \<and>
    of_int (totalStaked cd + treasuryBalance cd) < overflow_threshold - 2 ^ 970 \<longrightarrow>
      (\<exists>n x y. tvlPolyx (calculateTVL cfg cd price) = Num n \<and>
         totalStaked (calculateTVL cfg cd price) = Num x \<and>
         treasuryBalance (calculateTVL cfg cd price) = Num y \<and>
         \<bar>n - (x + y)\<bar> \<le>
           of_int (totalStaked cd + treasuryBalance cd) / 10 ^ 6 *
           (2 * (2 / 2 ^ 53 + 1 / 2 ^ 106))))"
proof -
  have fields:
    "tvlPolyx (calculateTVL cfg cd' price) = toPolyx cfg (totalStaked cd' + treasuryBalance cd')"
    "tvlUsd (calculateTVL cfg cd' price) = js_mul (tvlPolyx (calculateTVL cfg cd' price)) price"
    "polyxPrice (calculateTVL cfg cd' price) = price"
    "totalIssuance (calculateTVL cfg cd' price) = toPolyx cfg (totalIssuance cd')"
    "totalStaked (calculateTVL cfg cd' price) = toPolyx cfg (totalStaked cd')"
    "treasuryBalance (calculateTVL cfg cd' price) = toPolyx cfg (treasuryBalance cd')"
    for cd'
    by (simp_all add: calculateTVL_def Let_def)
  have frame:
    "tvlPolyx (calculateTVL cfg (cd \<lparr> totalIssuance := i \<rparr>) price) =
       tvlPolyx (calculateTVL cfg cd price)"
    "tvlUsd (calculateTVL cfg (cd \<lparr> totalIssuance := i \<rparr>) price) =
       tvlUsd (calculateTVL cfg cd price)"
    by (simp_all add: calculateTVL_def Let_def)
  have near: "\<exists>n x y. tvlPolyx (calculateTVL cfg cd price) = Num n \<and>
         totalStaked (calculateTVL cfg cd price) = Num x \<and>
         treasuryBalance (calculateTVL cfg cd price) = Num y \<and>
         \<bar>n - (x + y)\<bar> \<le>
           of_int (totalStaked cd + treasuryBalance cd) / 10 ^ 6 *
           (2 * (2 / 2 ^ 53 + 1 / 2 ^ 106))"
    if "POLYX_DECIMALS cfg = 6" "0 \<le> totalStaked cd" "0 \<le> treasuryBalance cd"
      "of_int (totalStaked cd + treasuryBalance cd) < overflow_threshold - 2 ^ 970"
    unfolding fields by (rule breakdown_fields_nearly_add_up[OF that])
  from fields[of cd] frame near show ?thesis by blast
qed

theorem tvl_breakdown_invariant_witness:
  "tvlPolyx (calculateTVL (CONFIG default_env)
      \<lparr> totalIssuance = 10, totalStaked = 1, treasuryBalance = 4 \<rparr> (Num 2)) =
     Num (5902958103587057 / 1180591620717411303424) \<and>
   tvlUsd (calculateTVL (CONFIG default_env)
      \<lparr> totalIssuance = 77, totalStaked = 1, treasuryBalance = 4 \<rparr> (Num 2)) =
     tvlUsd (calculateTVL (CONFIG default_env)
      \<lparr> totalIssuance = 10, totalStaked = 1, treasuryBalance = 4 \<rparr> (Num 2)) \<and>
   POLYX_DECIMALS (CONFIG default_env) = 6 \<and>
   (of_int (1 + 4) :: rat) < overflow_threshold - 2 ^ 970 \<and>
   (\<exists>n x y. tvlPolyx (calculateTVL (CONFIG default_env)
        \<lparr> totalIssuance = 10, totalStaked = 1, treasuryBalance = 4 \<rparr> (Num 2)) = Num n \<and>
      totalStaked (calculateTVL (CONFIG default_env)
        \<lparr> totalIssuance = 10, totalStaked = 1, treasuryBalance = 4 \<rparr> (Num 2)) = Num x \<and>
      treasuryBalance (calculateTVL (CONFIG default_env)
        \<lparr> totalIssuance = 10, totalStaked = 1, treasuryBalance = 4 \<rparr> (Num 2)) = Num y \<and>
      \<bar>n - (x + y)\<bar> \<le> of_int (1 + 4) / 10 ^ 6 * (2 * (2 / 2 ^ 53 + 1 / 2 ^ 106)))"
proof -
  define cd :: chain_data
    where "cd = \<lparr> totalIssuance = 10, totalStaked = 1, treasuryBalance = 4 \<rparr>"
  have d: "POLYX_DECIMALS (CONFIG default_env) = 6" by (simp add: CONFIG_def)
  have b: "(of_int (1 + 4) :: rat) < overflow_threshold - 2 ^ 970"
    by (simp add: overflow_threshold_def)
  have st: "totalStaked cd + treasuryBalance cd = 1 + 4" by (simp add: cd_def)
  have upd: "cd \<lparr> totalIssuance := 77 \<rparr> =
      \<lparr> totalIssuance = 77, totalStaked = 1, treasuryBalance = 4 \<rparr>"
    by (simp add: cd_def)
  have hyp: "POLYX_DECIMALS (CONFIG default_env) = 6 \<and> 0 \<le> totalStaked cd \<and>
      0 \<le> treasuryBalance cd \<and>
      of_int (totalStaked cd + treasuryBalance cd) < overflow_threshold - 2 ^ 970"
    using d b by (simp add: cd_def)
  note t = tvl_breakdown_invariant[of "CONFIG default_env" cd "Num 2" 77]
  from t have "tvlPolyx (calculateTVL (CONFIG default_env) cd (Num 2)) =
      toPolyx (CONFIG default_env) (totalStaked cd + treasuryBalance cd)"
    by (rule conjunct1)
  then have c1: "tvlPolyx (calculateTVL (CONFIG default_env) cd (Num 2)) =
      Num (5902958103587057 / 1180591620717411303424)"
    using toPolyx_5[OF d] by (simp add: cd_def)
  from t have c2: "tvlUsd (calculateTVL (CONFIG default_env) (cd \<lparr> totalIssuance := 77 \<rparr>) (Num 2)) =
      tvlUsd (calculateTVL (CONFIG default_env) cd (Num 2))"
    by blast
  from t hyp have c3: "\<exists>n x y. tvlPolyx (calculateTVL (CONFIG default_env) cd (Num 2)) = Num n \<and>
      totalStaked (calculateTVL (CONFIG default_env) cd (Num 2)) = Num x \<and>
      treasuryBalance (calculateTVL (CONFIG default_env) cd (Num 2)) = Num y \<and>
      \<bar>n - (x + y)\<bar> \<le>
        of_int (totalStaked cd + treasuryBalance cd) / 10 ^ 6 * (2 * (2 / 2 ^ 53 + 1 / 2 ^ 106))"
    by blast
  from c1 c2 c3 d b show ?thesis unfolding upd st unfolding cd_def by blast
qed

text \<open>
  C4, as stated, fails on the fields of the breakdown: with 1 smallest unit staked and 4 in
  the treasury, \<open>tvlPolyx\<close> is the binary64 value of 0.000005, while the breakdown's
  \<open>totalStaked\<close> (0.000001) and \<open>treasuryBalance\<close> (0.000004) add up to less, whether they are
  added exactly or as Numbers (0.0000049999999999999996).
\<close>

theorem breakdown_fields_do_not_add_up:
  "totalStaked (calculateTVL (CONFIG default_env)
      \<lparr> totalIssuance = 10, totalStaked = 1, treasuryBalance = 4 \<rparr> (Num 1)) =
     Num (4722366482869645 / 4722366482869645213696) \<and>
   treasuryBalance (calculateTVL (CONFIG default_env)
      \<lparr> totalIssuance = 10, totalStaked = 1, treasuryBalance = 4 \<rparr> (Num 1)) =
     Num (4722366482869645 / 1180591620717411303424) \<and>
   tvlPolyx (calculateTVL (CONFIG default_env)
      \<lparr> totalIssuance = 10, totalStaked = 1, treasuryBalance = 4 \<rparr> (Num 1)) =
     Num (5902958103587057 / 1180591620717411303424) \<and>
   (4722366482869645 / 4722366482869645213696 + 4722366482869645 / 1180591620717411303424 :: rat) <
     5902958103587057 / 1180591620717411303424 \<and>
   js_add
     (totalStaked (calculateTVL (CONFIG default_env)
        \<lparr> totalIssuance = 10, totalStaked = 1, treasuryBalance = 4 \<rparr> (Num 1)))
     (treasuryBalance (calculateTVL (CONFIG default_env)
        \<lparr> totalIssuance = 10, totalStaked = 1, treasuryBalance = 4 \<rparr> (Num 1))) =
     Num (5902958103587056 / 1180591620717411303424) \<and>
   tvlPolyx (calculateTVL (CONFIG default_env)
      \<lparr> totalIssuance = 10, totalStaked = 1, treasuryBalance = 4 \<rparr> (Num 1)) \<noteq>
   js_add
     (totalStaked (calculateTVL (CONFIG default_env)
        \<lparr> totalIssuance = 10, totalStaked = 1, treasuryBalance = 4 \<rparr> (Num 1)))
     (treasuryBalance (calculateTVL (CONFIG default_env)
        \<lparr> totalIssuance = 10, totalStaked = 1, treasuryBalance = 4 \<rparr> (Num 1)))"
proof -
  have d: "POLYX_DECIMALS (CONFIG default_env) = 6" by (simp add: CONFIG_def)
  show ?thesis
    unfolding calculateTVL_def Let_def
    using toPolyx_1[OF d] toPolyx_4[OF d] toPolyx_5[OF d] one_plus_four_micro
    by simp
qed

text \<open>
  C9, as the code has it. With 6 decimals and a non-negative integer \<open>a\<close>: below
  \<open>2 ^ 1024 - 2 ^ 970\<close>, \<open>toPolyx a\<close> is a finite Number within a relative error of
  \<open>2 / 2 ^ 53 + 1 / 2 ^ 106\<close> of \<open>a / 10 ^ 6\<close> (one rounding for \<open>Number(a)\<close>, one for the
  division); from \<open>2 ^ 1024 - 2 ^ 970\<close> on it is \<open>Infinity\<close>. The function is total: it has
  no error result.
\<close>

theorem toPolyx_tolerance:
  assumes "POLYX_DECIMALS cfg = 6" "0 \<le> a"
  shows "(of_int a < overflow_threshold - 2 ^ 970 \<longrightarrow>
           (\<exists>r. toPolyx cfg a = Num r \<and>
              \<bar>r - of_int a / 10 ^ 6\<bar> \<le> of_int a / 10 ^ 6 * (2 / 2 ^ 53 + 1 / 2 ^ 106))) \<and>
         (overflow_threshold - 2 ^ 970 \<le> of_int a \<longrightarrow> toPolyx cfg a = PosInfinity)"
  using toPolyx_finite[OF assms] toPolyx_overflow[OF assms(1), of a] by blast

theorem toPolyx_tolerance_witness:
  "POLYX_DECIMALS (CONFIG default_env) = 6 \<and> (0::int) \<le> 5 \<and>
   (of_int 5 :: rat) < overflow_threshold - 2 ^ 970 \<and>
   (\<exists>r. toPolyx (CONFIG default_env) 5 = Num r \<and>
      \<bar>r - of_int 5 / 10 ^ 6\<bar> \<le> of_int 5 / 10 ^ 6 * (2 / 2 ^ 53 + 1 / 2 ^ 106))"
proof -
  have d: "POLYX_DECIMALS (CONFIG default_env) = 6" by (simp add: CONFIG_def)
  have a: "(0::int) \<le> 5" by simp
  have b: "(of_int 5 :: rat) < overflow_threshold - 2 ^ 970"
    by (simp add: overflow_threshold_def)
  show ?thesis using d a b toPolyx_tolerance[OF d a] by blast
qed

text \<open>
  C9, as stated, fails for large integers: \<open>toPolyx\<close> of \<open>2 ^ 1024\<close> is \<open>Infinity\<close>, although
  \<open>2 ^ 1024 / 10 ^ 6\<close> is a number of the binary64 range.
\<close>

theorem toPolyx_overflows:
  "toPolyx (CONFIG default_env) (2 ^ 1024) = PosInfinity"
proof -
  have d: "POLYX_DECIMALS (CONFIG default_env) = 6" by (simp add: CONFIG_def)
  have "overflow_threshold - 2 ^ 970 \<le> (of_int (2 ^ 1024) :: rat)"
    by (simp add: overflow_threshold_def)
  with d show ?thesis by (rule toPolyx_overflow)
qed

end
